theory Spec2Isabelle
  imports Main
begin

section \<open>Python strings\<close>

text \<open>
  Strings are modelled as lists of 8-bit characters, so the model covers ASCII text.
  \<open>str.lower\<close> maps the letters A-Z to a-z and leaves every other character alone;
  \<open>str.strip\<close> removes leading and trailing whitespace (the characters for which
  \<open>str.isspace\<close> holds in ASCII: 0x09-0x0d, 0x1c-0x1f and the space).
\<close>

definition lower_char :: "char \<Rightarrow> char" where
  "lower_char c =
     (case map_of (zip ''ABCDEFGHIJKLMNOPQRSTUVWXYZ'' ''abcdefghijklmnopqrstuvwxyz'') c of
        Some d \<Rightarrow> d
      | None \<Rightarrow> c)"

definition lower :: "string \<Rightarrow> string" where
  "lower s = map lower_char s"

definition isspace :: "char \<Rightarrow> bool" where
  "isspace c \<longleftrightarrow>
     c \<in> set [CHR 0x09, CHR 0x0A, CHR 0x0B, CHR 0x0C, CHR 0x0D,
               CHR 0x1C, CHR 0x1D, CHR 0x1E, CHR 0x1F, CHR '' '']"

definition strip :: "string \<Rightarrow> string" where
  "strip s = rev (dropWhile isspace (rev (dropWhile isspace s)))"

text \<open>\<open>' ' in message\<close> and \<open>message.split(' ', 1)\<close>, the latter only used when the
  former holds: the text before the first space and the text after it.\<close>

definition has_space :: "string \<Rightarrow> bool" where
  "has_space s \<longleftrightarrow> CHR '' '' \<in> set s"

definition split_space :: "string \<Rightarrow> string \<times> string" where
  "split_space s =
     (takeWhile (\<lambda>c. c \<noteq> CHR '' '') s, drop 1 (dropWhile (\<lambda>c. c \<noteq> CHR '' '') s))"

section \<open>Python exceptions\<close>

datatype py_error = IndexError | KeyError | ValueError | ReadOnlyError

section \<open>Python dictionaries\<close>

text \<open>
  A \<open>dict\<close> keeps its keys in insertion order, and the handlers iterate over
  \<open>.values()\<close> and stop at the first match, so a dictionary is an association list:
  assigning to a key that is present replaces the value in place, assigning to a new
  key appends, \<open>del\<close> removes the entry.
\<close>

type_synonym ('k, 'v) dict = "('k \<times> 'v) list"

definition dict_get :: "('k, 'v) dict \<Rightarrow> 'k \<Rightarrow> 'v option" where
  "dict_get d k = map_of d k"

definition dict_has :: "('k, 'v) dict \<Rightarrow> 'k \<Rightarrow> bool" where
  "dict_has d k \<longleftrightarrow> map_of d k \<noteq> None"

primrec dict_set :: "'k \<Rightarrow> 'v \<Rightarrow> ('k, 'v) dict \<Rightarrow> ('k, 'v) dict" where
  "dict_set k v [] = [(k, v)]"
| "dict_set k v (p # ps) = (if fst p = k then (k, v) # ps else p # dict_set k v ps)"

definition dict_del :: "'k \<Rightarrow> ('k, 'v) dict \<Rightarrow> ('k, 'v) dict" where
  "dict_del k d = filter (\<lambda>p. fst p \<noteq> k) d"

definition dict_values :: "('k, 'v) dict \<Rightarrow> 'v list" where
  "dict_values d = map snd d"

section \<open>Colours\<close>

text \<open>
  \<open>webcolors.CSS3_NAMES_TO_HEX\<close>: the table of the CSS3 named colours of the
  \<open>webcolors\<close> library, in the library's (alphabetical) order.
\<close>

definition CSS3_NAMES_TO_HEX :: "(string \<times> string) list" where
  "CSS3_NAMES_TO_HEX =
   [(''aliceblue'', ''#f0f8ff''), (''antiquewhite'', ''#faebd7''), (''aqua'', ''#00ffff''),
    (''aquamarine'', ''#7fffd4''), (''azure'', ''#f0ffff''), (''beige'', ''#f5f5dc''),
    (''bisque'', ''#ffe4c4''), (''black'', ''#000000''), (''blanchedalmond'', ''#ffebcd''),
    (''blue'', ''#0000ff''), (''blueviolet'', ''#8a2be2''), (''brown'', ''#a52a2a''),
    (''burlywood'', ''#deb887''), (''cadetblue'', ''#5f9ea0''), (''chartreuse'', ''#7fff00''),
    (''chocolate'', ''#d2691e''), (''coral'', ''#ff7f50''), (''cornflowerblue'', ''#6495ed''),
    (''cornsilk'', ''#fff8dc''), (''crimson'', ''#dc143c''), (''cyan'', ''#00ffff''),
    (''darkblue'', ''#00008b''), (''darkcyan'', ''#008b8b''), (''darkgoldenrod'', ''#b8860b''),
    (''darkgray'', ''#a9a9a9''), (''darkgrey'', ''#a9a9a9''), (''darkgreen'', ''#006400''),
    (''darkkhaki'', ''#bdb76b''), (''darkmagenta'', ''#8b008b''),
    (''darkolivegreen'', ''#556b2f''), (''darkorange'', ''#ff8c00''),
    (''darkorchid'', ''#9932cc''), (''darkred'', ''#8b0000''), (''darksalmon'', ''#e9967a''),
    (''darkseagreen'', ''#8fbc8f''), (''darkslateblue'', ''#483d8b''),
    (''darkslategray'', ''#2f4f4f''), (''darkslategrey'', ''#2f4f4f''),
    (''darkturquoise'', ''#00ced1''), (''darkviolet'', ''#9400d3''), (''deeppink'', ''#ff1493''),
    (''deepskyblue'', ''#00bfff''), (''dimgray'', ''#696969''), (''dimgrey'', ''#696969''),
    (''dodgerblue'', ''#1e90ff''), (''firebrick'', ''#b22222''), (''floralwhite'', ''#fffaf0''),
    (''forestgreen'', ''#228b22''), (''fuchsia'', ''#ff00ff''), (''gainsboro'', ''#dcdcdc''),
    (''ghostwhite'', ''#f8f8ff''), (''gold'', ''#ffd700''), (''goldenrod'', ''#daa520''),
    (''gray'', ''#808080''), (''grey'', ''#808080''), (''green'', ''#008000''),
    (''greenyellow'', ''#adff2f''), (''honeydew'', ''#f0fff0''), (''hotpink'', ''#ff69b4''),
    (''indianred'', ''#cd5c5c''), (''indigo'', ''#4b0082''), (''ivory'', ''#fffff0''),
    (''khaki'', ''#f0e68c''), (''lavender'', ''#e6e6fa''), (''lavenderblush'', ''#fff0f5''),
    (''lawngreen'', ''#7cfc00''), (''lemonchiffon'', ''#fffacd''), (''lightblue'', ''#add8e6''),
    (''lightcoral'', ''#f08080''), (''lightcyan'', ''#e0ffff''),
    (''lightgoldenrodyellow'', ''#fafad2''), (''lightgray'', ''#d3d3d3''),
    (''lightgrey'', ''#d3d3d3''), (''lightgreen'', ''#90ee90''), (''lightpink'', ''#ffb6c1''),
    (''lightsalmon'', ''#ffa07a''), (''lightseagreen'', ''#20b2aa''),
    (''lightskyblue'', ''#87cefa''), (''lightslategray'', ''#778899''),
    (''lightslategrey'', ''#778899''), (''lightsteelblue'', ''#b0c4de''),
    (''lightyellow'', ''#ffffe0''), (''lime'', ''#00ff00''), (''limegreen'', ''#32cd32''),
    (''linen'', ''#faf0e6''), (''magenta'', ''#ff00ff''), (''maroon'', ''#800000''),
    (''mediumaquamarine'', ''#66cdaa''), (''mediumblue'', ''#0000cd''),
    (''mediumorchid'', ''#ba55d3''), (''mediumpurple'', ''#9370db''),
    (''mediumseagreen'', ''#3cb371''), (''mediumslateblue'', ''#7b68ee''),
    (''mediumspringgreen'', ''#00fa9a''), (''mediumturquoise'', ''#48d1cc''),
    (''mediumvioletred'', ''#c71585''), (''midnightblue'', ''#191970''),
    (''mintcream'', ''#f5fffa''), (''mistyrose'', ''#ffe4e1''), (''moccasin'', ''#ffe4b5''),
    (''navajowhite'', ''#ffdead''), (''navy'', ''#000080''), (''oldlace'', ''#fdf5e6''),
    (''olive'', ''#808000''), (''olivedrab'', ''#6b8e23''), (''orange'', ''#ffa500''),
    (''orangered'', ''#ff4500''), (''orchid'', ''#da70d6''), (''palegoldenrod'', ''#eee8aa''),
    (''palegreen'', ''#98fb98''), (''paleturquoise'', ''#afeeee''),
    (''palevioletred'', ''#db7093''), (''papayawhip'', ''#ffefd5''), (''peachpuff'', ''#ffdab9''),
    (''peru'', ''#cd853f''), (''pink'', ''#ffc0cb''), (''plum'', ''#dda0dd''),
    (''powderblue'', ''#b0e0e6''), (''purple'', ''#800080''), (''red'', ''#ff0000''),
    (''rosybrown'', ''#bc8f8f''), (''royalblue'', ''#4169e1''), (''saddlebrown'', ''#8b4513''),
    (''salmon'', ''#fa8072''), (''sandybrown'', ''#f4a460''), (''seagreen'', ''#2e8b57''),
    (''seashell'', ''#fff5ee''), (''sienna'', ''#a0522d''), (''silver'', ''#c0c0c0''),
    (''skyblue'', ''#87ceeb''), (''slateblue'', ''#6a5acd''), (''slategray'', ''#708090''),
    (''slategrey'', ''#708090''), (''snow'', ''#fffafa''), (''springgreen'', ''#00ff7f''),
    (''steelblue'', ''#4682b4''), (''tan'', ''#d2b48c''), (''teal'', ''#008080''),
    (''thistle'', ''#d8bfd8''), (''tomato'', ''#ff6347''), (''turquoise'', ''#40e0d0''),
    (''violet'', ''#ee82ee''), (''wheat'', ''#f5deb3''), (''white'', ''#ffffff''),
    (''whitesmoke'', ''#f5f5f5''), (''yellow'', ''#ffff00''), (''yellowgreen'', ''#9acd32'')]"

text \<open>\<open>webcolors.name_to_hex(name, spec=CSS3)\<close>: the entry of the lower-cased name,
  \<open>None\<close> standing for the \<open>ValueError\<close> the library raises on an unknown name.\<close>

definition name_to_hex :: "string \<Rightarrow> string option" where
  "name_to_hex name = map_of CSS3_NAMES_TO_HEX (lower name)"

text \<open>The value of a hexadecimal digit, in either case.\<close>

definition hex_val :: "char \<Rightarrow> int option" where
  "hex_val c =
     map_of (zip ''0123456789abcdefABCDEF''
                 [0, 1, 2, 3, 4, 5, 6, 7, 8, 9, 10, 11, 12, 13, 14, 15, 10, 11, 12, 13, 14, 15]) c"

definition is_hex :: "char \<Rightarrow> bool" where
  "is_hex c \<longleftrightarrow> hex_val c \<noteq> None"

text \<open>
  \<open>webcolors.normalize_hex\<close>: the value must match the pattern
  \<open>^#([a-fA-F0-9]{3}|[a-fA-F0-9]{6})$\<close>, that is \<open>#\<close> followed by exactly three or exactly
  six hexadecimal digits, where \<open>$\<close> also matches before one final newline; three digits
  are doubled, and the digits are lower-cased. \<open>None\<close> stands for the \<open>ValueError\<close> on
  any other value.
\<close>

definition normalize_hex :: "string \<Rightarrow> string option" where
  "normalize_hex hex_value =
     (case (if hex_value \<noteq> [] \<and> last hex_value = CHR 0x0A then butlast hex_value
            else hex_value) of
        [] \<Rightarrow> None
      | c # hex_digits \<Rightarrow>
          if c = CHR ''#'' \<and> list_all is_hex hex_digits
             \<and> (length hex_digits = 3 \<or> length hex_digits = 6)
          then Some (CHR ''#'' #
                 lower (if length hex_digits = 3 then concat (map (\<lambda>s. [s, s]) hex_digits)
                        else hex_digits))
          else None)"

text \<open>
  \<open>int(s, 16)\<close>: surrounding whitespace is skipped (for an ASCII string the characters
  0x09-0x0d and the space), then an optional sign, an optional \<open>0x\<close> prefix (which may be
  followed by one underscore), then hexadecimal digits, where single underscores may
  separate digits. \<open>None\<close> stands for \<open>ValueError\<close>.
\<close>

definition c_isspace :: "char \<Rightarrow> bool" where
  "c_isspace c \<longleftrightarrow> c \<in> set [CHR 0x09, CHR 0x0A, CHR 0x0B, CHR 0x0C, CHR 0x0D, CHR '' '']"

fun scan16 :: "bool \<Rightarrow> int \<Rightarrow> string \<Rightarrow> int option" where
  "scan16 prev_us acc [] = (if prev_us then None else Some acc)"
| "scan16 prev_us acc (c # cs) =
     (if c = CHR ''_'' then (if prev_us then None else scan16 True acc cs)
      else case hex_val c of
             None \<Rightarrow> None
           | Some d \<Rightarrow> scan16 False (16 * acc + d) cs)"

definition int16 :: "string \<Rightarrow> int option" where
  "int16 s =
     (let s1 = rev (dropWhile c_isspace (rev (dropWhile c_isspace s)));
          neg = (s1 \<noteq> [] \<and> hd s1 = CHR ''-'');
          s2 = (if s1 \<noteq> [] \<and> (hd s1 = CHR ''+'' \<or> hd s1 = CHR ''-'') then tl s1 else s1);
          s3 = (if length s2 \<ge> 2 \<and> hd s2 = CHR ''0''
                   \<and> (hd (tl s2) = CHR ''x'' \<or> hd (tl s2) = CHR ''X'')
                then (let r = tl (tl s2) in if r \<noteq> [] \<and> hd r = CHR ''_'' then tl r else r)
                else s2)
      in if s3 = [] \<or> hd s3 = CHR ''_'' then None
         else map_option (\<lambda>n. if neg then - n else n) (scan16 False 0 s3))"

text \<open>
  \<open>get_color\<close>. The random choice of \<open>random.choice\<close> is the parameter \<open>rnd\<close>, an
  index into the names of the table. The result is \<open>Inl ValueError\<close> where
  \<open>int(color[1:], 16)\<close> raises, \<open>Inr None\<close> where the function returns \<open>None\<close>,
  and \<open>Inr (Some v)\<close> where it returns the integer \<open>v\<close>.
\<close>

definition get_color :: "nat \<Rightarrow> string \<Rightarrow> py_error + int option" where
  "get_color rnd color0 =
     (let color1 = lower (strip color0);
          color2 = (if color1 = ''random''
                    then (let choices = map fst CSS3_NAMES_TO_HEX
                          in choices ! (rnd mod length choices))
                    else color1);
          color3 = (case name_to_hex color2 of Some h \<Rightarrow> h | None \<Rightarrow> color2);
          color4 = (case normalize_hex color3 of Some h \<Rightarrow> h | None \<Rightarrow> color3)
      in if length color4 \<noteq> 7 \<or> hd color4 \<noteq> CHR ''#'' then Inr None
         else (case int16 (tl color4) of
                 None \<Rightarrow> Inl ValueError
               | Some intval \<Rightarrow>
                   if intval < 0 \<or> intval > 0xFFFFFF then Inr None else Inr (Some intval)))"

section \<open>The data model\<close>

type_synonym sid = nat

text \<open>\<open>class SocketInfo\<close>: one per authenticated connection.\<close>

record SocketInfo =
  sid :: sid
  ip :: string
  streamer :: string
  username :: string
  admin :: bool
  moderator :: bool
  muted :: bool
  color :: int

text \<open>\<open>class PresenceInfo\<close>; its fields \<open>sid\<close> and \<open>streamer\<close> carry a prefix here,
  since \<open>SocketInfo\<close> has fields of the same names.\<close>

record PresenceInfo =
  presence_sid :: sid
  presence_streamer :: string
  timestamp :: int

text \<open>A row of the table \<open>streamersettings\<close> of \<open>data.py\<close>; the columns
  \<open>description\<close> and \<open>streampass\<close> are nullable.\<close>

record settings_row =
  row_username :: string
  row_key :: string
  description :: "string option"
  streampass :: "string option"

text \<open>
  The two global dictionaries, the settings table, and the \<open>read_only\<close> entry of the
  database configuration that \<open>Data.execute\<close> consults.
\<close>

record state =
  socket_to_info :: "(sid, SocketInfo) dict"
  socket_to_presence :: "(sid, PresenceInfo) dict"
  streamersettings :: "settings_row list"
  read_only :: bool

text \<open>
  What a handler takes from outside the state: the clock (\<open>now()\<close>), the outcome of
  \<open>random.choice\<close>, the peer address of the request, and the emoji transform of the
  \<open>emoji\<close> library (\<open>emotes\<close>).
\<close>

record env =
  now :: int
  rnd :: nat
  remote_addr :: string
  emotes :: "string \<Rightarrow> string"

text \<open>
  Outputs. A payload is a dictionary of strings, except for the roster under \<open>users\<close>,
  a list of entries (username, type, color). \<open>socketio.emit(..., room=request.sid)\<close>
  addresses one connection, \<open>room=streamer\<close> a room; \<open>join_room\<close> is recorded as an
  output too.
\<close>

datatype jval = Str string | Users "(string \<times> string \<times> string) list"

type_synonym payload = "(string \<times> jval) list"

datatype target = ToSid sid | ToRoom string

datatype effect = Emit string payload target | JoinRoom sid string

text \<open>
  The outcome of a handler: the state it leaves, the outputs it made, and the exception
  it raised, if any. A handler that raises has still made the assignments that precede
  the raise.
\<close>

record outcome =
  st :: state
  out :: "effect list"
  exc :: "py_error option"

definition ret :: "state \<Rightarrow> effect list \<Rightarrow> outcome" where
  "ret s es = \<lparr>st = s, out = es, exc = None\<rparr>"

definition raise :: "state \<Rightarrow> effect list \<Rightarrow> py_error \<Rightarrow> outcome" where
  "raise s es x = \<lparr>st = s, out = es, exc = Some x\<rparr>"

section \<open>Helpers of the handlers\<close>

text \<open>\<open>hex(n)[2:]\<close> and the property \<open>htmlcolor\<close>.\<close>

definition hexchar :: "int \<Rightarrow> char" where
  "hexchar d = ''0123456789abcdef'' ! nat d"

function hex_digits :: "int \<Rightarrow> string" where
  "hex_digits n = (if n < 16 then [hexchar n] else hex_digits (n div 16) @ [hexchar (n mod 16)])"
  by pat_completeness auto
termination
  by (relation "measure nat") auto

declare hex_digits.simps [simp del]

definition py_hex :: "int \<Rightarrow> string" where
  "py_hex n = (if n < 0 then ''-0x'' @ hex_digits (- n) else ''0x'' @ hex_digits n)"

definition htmlcolor :: "SocketInfo \<Rightarrow> string" where
  "htmlcolor i =
     (let c = drop 2 (py_hex (color i));
          c' = (if length c < 6 then replicate (6 - length c) (CHR ''0'') @ c else c)
      in CHR ''#'' # c')"

definition get_type :: "SocketInfo \<Rightarrow> string" where
  "get_type user = (if admin user then ''admin'' else if moderator user then ''moderator''
                    else ''normal'')"

definition users_in_room :: "state \<Rightarrow> string \<Rightarrow> (string \<times> string \<times> string) list" where
  "users_in_room s room =
     map (\<lambda>i. (username i, get_type i, htmlcolor i))
         (filter (\<lambda>i. streamer i = room) (dict_values (socket_to_info s)))"

text \<open>\<open>stream_count\<close>, at the time \<open>t\<close> that \<open>now()\<close> returns.\<close>

definition stream_count :: "int \<Rightarrow> state \<Rightarrow> string \<Rightarrow> nat" where
  "stream_count t s room =
     (let oldest = t - 30
      in length (filter (\<lambda>x. presence_streamer x = room \<and> timestamp x \<ge> oldest)
                        (dict_values (socket_to_presence s))))"

text \<open>\<open>socket_to_presence[request.sid] = PresenceInfo(request.sid, streamer)\<close>.\<close>

definition touch :: "env \<Rightarrow> sid \<Rightarrow> string \<Rightarrow> state \<Rightarrow> state" where
  "touch e request_sid room s =
     s\<lparr>socket_to_presence :=
          dict_set request_sid
            \<lparr>presence_sid = request_sid, presence_streamer = room, timestamp = now e\<rparr>
            (socket_to_presence s)\<rparr>"

text \<open>
  The settings store. \<open>SELECT ... WHERE username = :username\<close> compares under the
  collation of the column, which for MySQL is case-insensitive by default; the handlers
  rely on it, looking the lower-cased room name up and taking the stored spelling from
  the row. \<open>UPDATE\<close> changes every matching row, and \<open>Data.execute\<close> refuses it in
  read-only mode.
\<close>

definition sql_eq :: "string \<Rightarrow> string \<Rightarrow> bool" where
  "sql_eq a b \<longleftrightarrow> lower a = lower b"

definition select_streamer :: "state \<Rightarrow> string \<Rightarrow> settings_row list" where
  "select_streamer s name = filter (\<lambda>r. sql_eq (row_username r) name) (streamersettings s)"

definition update_description :: "string \<Rightarrow> string \<Rightarrow> state \<Rightarrow> state" where
  "update_description name d s =
     s\<lparr>streamersettings :=
          map (\<lambda>r. if sql_eq (row_username r) name then r\<lparr>description := Some d\<rparr> else r)
              (streamersettings s)\<rparr>"

definition update_streampass :: "string \<Rightarrow> string option \<Rightarrow> state \<Rightarrow> state" where
  "update_streampass name p s =
     s\<lparr>streamersettings :=
          map (\<lambda>r. if sql_eq (row_username r) name then r\<lparr>streampass := p\<rparr> else r)
              (streamersettings s)\<rparr>"

definition msg :: "string \<Rightarrow> payload" where
  "msg m = [(''msg'', Str m)]"

definition error_to :: "sid \<Rightarrow> string \<Rightarrow> effect" where
  "error_to request_sid m = Emit ''error'' (msg m) (ToSid request_sid)"

definition server_to :: "sid \<Rightarrow> string \<Rightarrow> effect" where
  "server_to request_sid m = Emit ''server'' (msg m) (ToSid request_sid)"

definition identity :: "SocketInfo \<Rightarrow> payload" where
  "identity i =
     [(''username'', Str (username i)), (''type'', Str (get_type i)),
      (''color'', Str (htmlcolor i))]"

definition quoted :: "string \<Rightarrow> string" where
  "quoted x = [CHR 0x27] @ x @ [CHR 0x27]"

definition unrecognized :: "sid \<Rightarrow> string \<Rightarrow> effect" where
  "unrecognized request_sid command =
     server_to request_sid
       (''Unrecognized command '' @ quoted command @ '', use '' @ quoted ''/help''
        @ '' for info.'')"

section \<open>The handlers of connect, disconnect and presence\<close>

definition connect :: "sid \<Rightarrow> state \<Rightarrow> outcome" where
  "connect request_sid s =
     (if dict_has (socket_to_info s) request_sid
      then ret (s\<lparr>socket_to_info := dict_del request_sid (socket_to_info s)\<rparr>) []
      else ret s [])"

definition disconnect :: "sid \<Rightarrow> state \<Rightarrow> outcome" where
  "disconnect request_sid s =
     (let (s1, es) =
            (case dict_get (socket_to_info s) request_sid of
               None \<Rightarrow> (s, [])
             | Some info \<Rightarrow>
                 (let s' = s\<lparr>socket_to_info := dict_del request_sid (socket_to_info s)\<rparr>
                  in (s', [Emit ''disconnected''
                             (identity info @ [(''users'', Users (users_in_room s' (streamer info)))])
                             (ToRoom (streamer info))])));
          s2 = (if dict_has (socket_to_presence s1) request_sid
                then s1\<lparr>socket_to_presence := dict_del request_sid (socket_to_presence s1)\<rparr>
                else s1)
      in ret s2 es)"

text \<open>The payload of \<open>presence\<close> is its \<open>streamer\<close> entry, \<open>None\<close> when absent.\<close>

definition handle_presence :: "env \<Rightarrow> sid \<Rightarrow> string option \<Rightarrow> state \<Rightarrow> outcome" where
  "handle_presence e request_sid json s =
     (case json of
        None \<Rightarrow> ret s []
      | Some js \<Rightarrow> ret (touch e request_sid (lower js) s) [])"

section \<open>The login handler\<close>

text \<open>The payload of \<open>login\<close>: each entry is \<open>None\<close> when the key is absent.\<close>

record login_json =
  json_username :: "string option"
  json_streamer :: "string option"
  json_color :: "string option"
  json_key :: "string option"

text \<open>
  The part of \<open>handle_login\<close> after the key check: the second uniqueness loop, the
  insertion and the outputs. The session is built from \<open>json['username']\<close> (here
  \<open>ju\<close>); the local \<open>username\<close>, which the admin branch has set to the stored
  spelling, is not read again.
\<close>

definition login_finish ::
    "env \<Rightarrow> sid \<Rightarrow> state \<Rightarrow> string \<Rightarrow> string \<Rightarrow> bool \<Rightarrow> int \<Rightarrow> outcome" where
  "login_finish e request_sid s room ju is_admin col =
     (if list_ex (\<lambda>existing. streamer existing = room
                     \<and> lower (username existing) = lower ju)
                 (dict_values (socket_to_info s))
      then ret s [error_to request_sid ''Username is taken'']
      else
        (let info = \<lparr>sid = request_sid, ip = remote_addr e, streamer = room, username = ju,
                     admin = is_admin, moderator = False, muted = False, color = col\<rparr>;
             s' = s\<lparr>socket_to_info := dict_set request_sid info (socket_to_info s)\<rparr>
         in ret s'
              ([JoinRoom request_sid room,
                Emit ''login success'' [(''username'', Str ju)] (ToSid request_sid),
                Emit ''connected''
                  (identity info @ [(''users'', Users (users_in_room s' room))])
                  (ToRoom room)]
               @ (if is_admin then [server_to request_sid ''You have admin rights.''] else []))))"

text \<open>
  \<open>handle_login\<close>. The colour is \<open>get_color(...) or 0\<close>: 0 for \<open>None\<close> and for 0. The
  presence record is written before the settings table is queried.
\<close>

definition handle_login :: "env \<Rightarrow> sid \<Rightarrow> login_json \<Rightarrow> state \<Rightarrow> outcome" where
  "handle_login e request_sid json s =
     (if dict_has (socket_to_info s) request_sid
      then ret s [error_to request_sid ''SID already taken?'']
      else case json_username json of
        None \<Rightarrow> ret s [error_to request_sid ''Username mssing from JSON?'']
      | Some ju \<Rightarrow>
      (case json_streamer json of
        None \<Rightarrow> ret s [error_to request_sid ''Streamer mssing from JSON?'']
      | Some js \<Rightarrow>
        if length ju = 0 then ret s [error_to request_sid ''Username cannot be blank'']
        else if length ju \<ge> 30 then ret s [error_to request_sid ''Username cannot be that long'']
        else
          (let room = lower js
           in if list_ex (\<lambda>user. lower (fst user) = lower ju) (users_in_room s room)
              then ret s [error_to request_sid ''Username is already taken'']
              else case json_color json of
                None \<Rightarrow> raise s [] KeyError
              | Some jc \<Rightarrow>
              (case get_color (rnd e) (lower (strip jc)) of
                Inl x \<Rightarrow> raise s [] x
              | Inr c \<Rightarrow>
                (let col = (case c of None \<Rightarrow> 0 | Some v \<Rightarrow> if v = 0 then 0 else v);
                     key = json_key json;
                     s1 = touch e request_sid room s;
                     cursor = select_streamer s1 room
                 in if length cursor \<noteq> 1
                    then ret s1 [error_to request_sid ''Streamer does not exist'']
                    else if lower ju = room
                    then (let result = hd cursor
                          in case key of
                               None \<Rightarrow>
                                 ret s1 [Emit ''login key required''
                                           [(''username'', Str (row_username result))]
                                           (ToSid request_sid)]
                             | Some k \<Rightarrow>
                                 if k \<noteq> row_key result
                                 then ret s1 [error_to request_sid ''Invalid password!'']
                                 else login_finish e request_sid s1 room ju True col)
                    else login_finish e request_sid s1 room ju False col)))))"

section \<open>The message handler\<close>

text \<open>
  The branches of \<open>/say\<close>, of \<open>/me\<close>, \<open>/action\<close> and \<open>/describe\<close>, and of plain speech:
  they differ in the name of the event only.
\<close>

definition say :: "env \<Rightarrow> sid \<Rightarrow> SocketInfo \<Rightarrow> state \<Rightarrow> string \<Rightarrow> string \<Rightarrow> outcome" where
  "say e request_sid me s event message =
     (if muted me then ret s [server_to request_sid ''You are muted!'']
      else ret s [Emit event (identity me @ [(''message'', Str (emotes e message))])
                    (ToRoom (streamer me))])"

definition cmd_color :: "env \<Rightarrow> sid \<Rightarrow> SocketInfo \<Rightarrow> state \<Rightarrow> string \<Rightarrow> outcome" where
  "cmd_color e request_sid me s message =
     (if muted me then ret s [server_to request_sid ''You are muted!'']
      else case get_color (rnd e) (lower (strip message)) of
        Inl x \<Rightarrow> raise s [] x
      | Inr c \<Rightarrow>
          if (case c of None \<Rightarrow> True | Some v \<Rightarrow> v = 0)
          then ret s [server_to request_sid
                        (''Invalid color '' @ message
                         @ '' specified, try a color name, an HTML color like #ff00ff or ''
                         @ [CHR 0x22] @ ''random'' @ [CHR 0x22] @ '' for a random color.'')]
          else
            (let me' = me\<lparr>color := the c\<rparr>;
                 s' = s\<lparr>socket_to_info := dict_set request_sid me' (socket_to_info s)\<rparr>
             in ret s'
                  [Emit ''action received''
                     (identity me' @ [(''message'', Str ''changed their color!'')])
                     (ToRoom (streamer me')),
                   Emit ''return color'' [(''color'', Str (htmlcolor me'))] (ToSid request_sid)]))"

definition cmd_name :: "sid \<Rightarrow> SocketInfo \<Rightarrow> state \<Rightarrow> string \<Rightarrow> outcome" where
  "cmd_name request_sid me s message =
     (if muted me then ret s [server_to request_sid ''You are muted!'']
      else
        (let name = strip message
         in if length name \<ge> 30
            then ret s [server_to request_sid
                          ''Too long of a name specified, try a different name.'']
            else if list_ex (\<lambda>user. lower (fst user) = lower name)
                            (users_in_room s (streamer me))
            then ret s [server_to request_sid
                          ''Name has already been taken, try a different name.'']
            else if name = []
            then ret s [server_to request_sid ''Invalid name specified, try a different name.'']
            else
              (let old = username me;
                   me' = me\<lparr>username := name\<rparr>;
                   s' = s\<lparr>socket_to_info := dict_set request_sid me' (socket_to_info s)\<rparr>
               in ret s'
                    [Emit ''rename''
                       [(''newname'', Str (username me')), (''oldname'', Str old),
                        (''type'', Str (get_type me')), (''color'', Str (htmlcolor me')),
                        (''users'', Users (users_in_room s' (streamer me')))]
                       (ToRoom (streamer me'))])))"

definition cmd_help :: "sid \<Rightarrow> SocketInfo \<Rightarrow> state \<Rightarrow> outcome" where
  "cmd_help request_sid me s =
     (let messages =
            [''The following commands are recognized:'',
             ''/help - show this message'',
             ''/users - show the currently chatting users'',
             ''/me - perform an action'',
             ''/color - set the color of your name in chat'',
             ''/name - change your name to a new one'']
            @ (if admin me
               then [''/settings - display all stream settings'',
                     ''/description <text> - set the stream description'',
                     ''/password [<text>] - set or unset the stream password'',
                     ''/mod <user> - grant moderator privileges to user'',
                     ''/demod <user> - revoke moderator privileges to user'']
               else [])
            @ (if admin me \<or> moderator me
               then [''/mute <user> - mute user'', ''/unmute <user> - unmute user'']
               else [])
      in ret s (map (server_to request_sid) messages))"

definition cmd_users :: "sid \<Rightarrow> SocketInfo \<Rightarrow> state \<Rightarrow> outcome" where
  "cmd_users request_sid me s =
     ret s [Emit ''userlist'' [(''users'', Users (users_in_room s (streamer me)))]
              (ToSid request_sid)]"

definition cmd_settings :: "sid \<Rightarrow> SocketInfo \<Rightarrow> state \<Rightarrow> string \<Rightarrow> outcome" where
  "cmd_settings request_sid me s command =
     (if \<not> admin me then ret s [unrecognized request_sid command]
      else
        (let cursor = select_streamer s (streamer me)
         in if length cursor \<noteq> 1
            then ret s [server_to request_sid ''Error looking up settings!'']
            else
              (let result = hd cursor
               in ret s
                    [server_to request_sid
                       (''Description: ''
                        @ (case description result of None \<Rightarrow> ''None'' | Some d \<Rightarrow> d)),
                     (case streampass result of
                        None \<Rightarrow> server_to request_sid ''No stream password''
                      | Some p \<Rightarrow>
                          if p = [] then server_to request_sid ''No stream password''
                          else server_to request_sid (''Stream password: '' @ p))])))"

text \<open>
  The loop \<open>for sinfo in socket_to_info.values()\<close> of the four moderation commands
  stops at the first session of the caller's room whose lower-cased name is the
  argument; the entry is kept with its key, under which the changed session is stored.
\<close>

definition find_user :: "state \<Rightarrow> string \<Rightarrow> string \<Rightarrow> (sid \<times> SocketInfo) option" where
  "find_user s name room =
     find (\<lambda>p. lower (username (snd p)) = name \<and> streamer (snd p) = room) (socket_to_info s)"

definition cmd_mute :: "sid \<Rightarrow> SocketInfo \<Rightarrow> state \<Rightarrow> string \<Rightarrow> string \<Rightarrow> outcome" where
  "cmd_mute request_sid me s command message =
     (if \<not> (admin me \<or> moderator me) then ret s [unrecognized request_sid command]
      else
        (let message' = lower (strip message)
         in case find_user s message' (streamer me) of
              None \<Rightarrow> ret s [server_to request_sid (''Unrecognized user '' @ quoted message')]
            | Some (k, sinfo) \<Rightarrow>
                (let changed = (muted sinfo = False);
                     s' = s\<lparr>socket_to_info :=
                              dict_set k (sinfo\<lparr>muted := True\<rparr>) (socket_to_info s)\<rparr>
                 in if changed
                    then ret s'
                           [server_to request_sid
                              (''User '' @ quoted message' @ '' has been muted.''),
                            server_to (sid sinfo) ''You have been muted.'']
                    else ret s'
                           [server_to request_sid
                              (''User '' @ quoted message' @ '' is already muted.'')])))"

definition cmd_unmute :: "sid \<Rightarrow> SocketInfo \<Rightarrow> state \<Rightarrow> string \<Rightarrow> string \<Rightarrow> outcome" where
  "cmd_unmute request_sid me s command message =
     (if \<not> (admin me \<or> moderator me) then ret s [unrecognized request_sid command]
      else
        (let message' = lower (strip message)
         in case find_user s message' (streamer me) of
              None \<Rightarrow> ret s [server_to request_sid (''Unrecognized user '' @ quoted message')]
            | Some (k, sinfo) \<Rightarrow>
                (let changed = (muted sinfo = True);
                     s' = s\<lparr>socket_to_info :=
                              dict_set k (sinfo\<lparr>muted := False\<rparr>) (socket_to_info s)\<rparr>
                 in if changed
                    then ret s'
                           [server_to request_sid
                              (''User '' @ quoted message' @ '' has been unmuted.''),
                            server_to (sid sinfo) ''You have been unmuted.'']
                    else ret s'
                           [server_to request_sid
                              (''User '' @ quoted message' @ '' is not muted.'')])))"

definition cmd_mod :: "sid \<Rightarrow> SocketInfo \<Rightarrow> state \<Rightarrow> string \<Rightarrow> string \<Rightarrow> outcome" where
  "cmd_mod request_sid me s command message =
     (if \<not> (admin me) then ret s [unrecognized request_sid command]
      else
        (let message' = lower (strip message)
         in case find_user s message' (streamer me) of
              None \<Rightarrow> ret s [server_to request_sid (''Unrecognized user '' @ quoted message')]
            | Some (k, sinfo) \<Rightarrow>
                (let changed = (moderator sinfo = False);
                     s' = s\<lparr>socket_to_info :=
                              dict_set k (sinfo\<lparr>moderator := True\<rparr>) (socket_to_info s)\<rparr>
                 in if changed
                    then ret s'
                           [server_to request_sid
                              (''User '' @ quoted message' @ '' has been promoted to moderator.''),
                            server_to (sid sinfo) ''You have been promoted to moderator.'']
                    else ret s'
                           [server_to request_sid
                              (''User '' @ quoted message' @ '' is already a moderator.'')])))"

definition cmd_demod :: "sid \<Rightarrow> SocketInfo \<Rightarrow> state \<Rightarrow> string \<Rightarrow> string \<Rightarrow> outcome" where
  "cmd_demod request_sid me s command message =
     (if \<not> (admin me) then ret s [unrecognized request_sid command]
      else
        (let message' = lower (strip message)
         in case find_user s message' (streamer me) of
              None \<Rightarrow> ret s [server_to request_sid (''Unrecognized user '' @ quoted message')]
            | Some (k, sinfo) \<Rightarrow>
                (let changed = (moderator sinfo = True);
                     s' = s\<lparr>socket_to_info :=
                              dict_set k (sinfo\<lparr>moderator := False\<rparr>) (socket_to_info s)\<rparr>
                 in if changed
                    then ret s'
                           [server_to request_sid
                              (''User '' @ quoted message' @ '' has been demoted from moderator.''),
                            server_to (sid sinfo) ''You have been demoted from moderator.'']
                    else ret s'
                           [server_to request_sid
                              (''User '' @ quoted message' @ '' is not a moderator.'')])))"

definition cmd_description ::
    "env \<Rightarrow> sid \<Rightarrow> SocketInfo \<Rightarrow> state \<Rightarrow> string \<Rightarrow> string \<Rightarrow> outcome" where
  "cmd_description e request_sid me s command message =
     (if \<not> admin me then ret s [unrecognized request_sid command]
      else if read_only s then raise s [] ReadOnlyError
      else ret (update_description (streamer me) (emotes e (strip message)) s)
             [server_to request_sid ''Stream description updated!''])"

definition cmd_password :: "sid \<Rightarrow> SocketInfo \<Rightarrow> state \<Rightarrow> string \<Rightarrow> string \<Rightarrow> outcome" where
  "cmd_password request_sid me s command message =
     (if \<not> admin me then ret s [unrecognized request_sid command]
      else if read_only s then raise s [] ReadOnlyError
      else if message \<noteq> []
      then ret (update_streampass (streamer me) (Some message) s)
             [server_to request_sid
                (''Stream password set to '' @ [CHR 0x22] @ message @ [CHR 0x22] @ ''!''),
              Emit ''password set'' [(''password'', Str message)] (ToSid request_sid),
              Emit ''password activated'' [(''username'', Str (streamer me))]
                (ToRoom (streamer me))]
      else ret (update_streampass (streamer me) None s)
             [server_to request_sid ''Stream password removed!'',
              Emit ''password deactivated''
                [(''username'', Str (streamer me)),
                 (''msg'', Str ''Stream password has been removed.'')]
                (ToRoom (streamer me))])"

text \<open>The \<open>if\<close>/\<open>elif\<close> chain over the command name, in the order of the source.\<close>

definition dispatch ::
    "env \<Rightarrow> sid \<Rightarrow> SocketInfo \<Rightarrow> state \<Rightarrow> string \<Rightarrow> string \<Rightarrow> outcome" where
  "dispatch e request_sid me s command message =
     (if command \<in> set [''/say''] then say e request_sid me s ''message received'' message
      else if command \<in> set [''/me'', ''/action'', ''/describe'']
        then say e request_sid me s ''action received'' message
      else if command \<in> set [''/color'', ''/setcolor''] then cmd_color e request_sid me s message
      else if command \<in> set [''/name'', ''/nick''] then cmd_name request_sid me s message
      else if command \<in> set [''/help''] then cmd_help request_sid me s
      else if command \<in> set [''/users''] then cmd_users request_sid me s
      else if command \<in> set [''/settings''] then cmd_settings request_sid me s command
      else if command \<in> set [''/mute'', ''/quiet'']
        then cmd_mute request_sid me s command message
      else if command \<in> set [''/unmute'', ''/unquiet'']
        then cmd_unmute request_sid me s command message
      else if command \<in> set [''/mod''] then cmd_mod request_sid me s command message
      else if command \<in> set [''/demod'', ''/unmod'']
        then cmd_demod request_sid me s command message
      else if command \<in> set [''/desc'', ''/description'']
        then cmd_description e request_sid me s command message
      else if command \<in> set [''/password''] then cmd_password request_sid me s command message
      else ret s [unrecognized request_sid command])"

text \<open>
  The split of a command line: \<open>command, message = message.split(' ', 1)\<close> when the
  line has a space, the whole line and the empty argument otherwise.
\<close>

definition split_command :: "string \<Rightarrow> string \<times> string" where
  "split_command message = (if has_space message then split_space message else (message, []))"

text \<open>The payload of \<open>message\<close> is its \<open>message\<close> entry, \<open>None\<close> when absent.
  \<open>message[0]\<close> raises \<open>IndexError\<close> on the empty string.\<close>

definition handle_message :: "env \<Rightarrow> sid \<Rightarrow> string option \<Rightarrow> state \<Rightarrow> outcome" where
  "handle_message e request_sid json s =
     (case json of
        None \<Rightarrow> ret s [error_to request_sid ''Message mssing from JSON?'']
      | Some jm \<Rightarrow>
          if length jm = 0
          then ret s [Emit ''warning'' (msg ''Message cannot be blank'') (ToSid request_sid)]
          else
            (case dict_get (socket_to_info s) request_sid of
               None \<Rightarrow> ret s [error_to request_sid ''User is not authenticated?'']
             | Some me \<Rightarrow>
                 (let s1 = touch e request_sid (streamer me) s;
                      message = strip jm
                  in if message = [] then raise s1 [] IndexError
                     else if hd message = CHR ''/''
                     then dispatch e request_sid me s1 (fst (split_command message))
                            (snd (split_command message))
                     else say e request_sid me s1 ''message received'' message)))"

section \<open>The handlers of get color and drawing\<close>

definition return_color :: "sid \<Rightarrow> state \<Rightarrow> outcome" where
  "return_color request_sid s =
     (case dict_get (socket_to_info s) request_sid of
        None \<Rightarrow> ret s [error_to request_sid ''User is not authenticated?'']
      | Some me \<Rightarrow> ret s [Emit ''return color'' [(''color'', Str (htmlcolor me))]
                             (ToSid request_sid)])"

text \<open>The payload of \<open>drawing\<close> is its \<open>src\<close> entry, \<open>None\<close> when absent.\<close>

definition handle_drawing :: "env \<Rightarrow> sid \<Rightarrow> string option \<Rightarrow> state \<Rightarrow> outcome" where
  "handle_drawing e request_sid json s =
     (case json of
        None \<Rightarrow> ret s [error_to request_sid ''Image mssing from JSON?'']
      | Some js \<Rightarrow>
          (case dict_get (socket_to_info s) request_sid of
             None \<Rightarrow> ret s [error_to request_sid ''User is not authenticated?'']
           | Some me \<Rightarrow>
               (let s1 = touch e request_sid (streamer me) s;
                    src = strip js
                in if muted me then ret s1 [server_to request_sid ''You are muted!'']
                   else ret s1 [Emit ''drawing received'' (identity me @ [(''src'', Str src)])
                                  (ToRoom (streamer me))])))"

section \<open>Events and reachable states\<close>

datatype event =
    Connect
  | Disconnect
  | Presence "string option"
  | Login login_json
  | Message "string option"
  | GetColor
  | Drawing "string option"

fun handle :: "env \<Rightarrow> sid \<Rightarrow> event \<Rightarrow> state \<Rightarrow> outcome" where
  "handle e request_sid Connect s = connect request_sid s"
| "handle e request_sid Disconnect s = disconnect request_sid s"
| "handle e request_sid (Presence json) s = handle_presence e request_sid json s"
| "handle e request_sid (Login json) s = handle_login e request_sid json s"
| "handle e request_sid (Message json) s = handle_message e request_sid json s"
| "handle e request_sid GetColor s = return_color request_sid s"
| "handle e request_sid (Drawing json) s = handle_drawing e request_sid json s"

text \<open>
  The server starts with both dictionaries empty, over any settings table, and then
  handles one event after the other; the state a handler leaves counts whether it
  returned or raised. Each handler is one atomic step: handlers that interleave at their
  database calls are not modelled.
\<close>

inductive reachable :: "state \<Rightarrow> bool" where
  init: "socket_to_info s = [] \<Longrightarrow> socket_to_presence s = [] \<Longrightarrow> reachable s"
| step: "reachable s \<Longrightarrow> reachable (st (handle e request_sid ev s))"

section \<open>Properties of states\<close>

text \<open>The room and the case-normalised display name of an entry of the registry.\<close>

definition room_name :: "sid \<times> SocketInfo \<Rightarrow> string \<times> string" where
  "room_name p = (streamer (snd p), lower (username (snd p)))"

text \<open>
  The registry is well formed when its keys are distinct (it is a dictionary), every
  session is stored under its own connection id, the keys of the presence dictionary
  are distinct, and no pair of room and case-normalised name occurs twice.
\<close>

definition registry_ok :: "state \<Rightarrow> bool" where
  "registry_ok s \<longleftrightarrow>
     distinct (map fst (socket_to_info s))
     \<and> distinct (map fst (socket_to_presence s))
     \<and> list_all (\<lambda>p. sid (snd p) = fst p) (socket_to_info s)
     \<and> distinct (map room_name (socket_to_info s))"

text \<open>The connection ids that hold a presence record for a room stamped at most 30
  seconds before the time \<open>t\<close> of observation.\<close>

definition live_sids :: "int \<Rightarrow> state \<Rightarrow> string \<Rightarrow> sid set" where
  "live_sids t s room =
     {k. \<exists>p. dict_get (socket_to_presence s) k = Some p
              \<and> presence_streamer p = room \<and> timestamp p \<ge> t - 30}"

text \<open>Every admin session is named as its room, up to case.\<close>

definition admin_named_as_room :: "state \<Rightarrow> bool" where
  "admin_named_as_room s \<longleftrightarrow>
     list_all (\<lambda>i. admin i \<longrightarrow> lower (username i) = lower (streamer i))
              (dict_values (socket_to_info s))"

section \<open>Example states\<close>

text \<open>
  A settings table with the one streamer \<open>bob\<close>, whose key is \<open>k\<close>; the clock at 100 and
  at 200; the emoji transform taken as the identity.
\<close>

definition example_env :: env where
  "example_env = \<lparr>now = 100, rnd = 0, remote_addr = ''10.0.0.1'', emotes = (\<lambda>x. x)\<rparr>"

definition example_env_later :: env where
  "example_env_later = \<lparr>now = 200, rnd = 0, remote_addr = ''10.0.0.1'', emotes = (\<lambda>x. x)\<rparr>"

definition example_start :: state where
  "example_start =
     \<lparr>socket_to_info = [], socket_to_presence = [],
      streamersettings =
        [\<lparr>row_username = ''bob'', row_key = ''k'', description = None, streampass = None\<rparr>],
      read_only = False\<rparr>"

definition login_payload ::
    "string \<Rightarrow> string \<Rightarrow> string option \<Rightarrow> string option \<Rightarrow> login_json" where
  "login_payload u r c k =
     \<lparr>json_username = Some u, json_streamer = Some r, json_color = c, json_key = k\<rparr>"

text \<open>Connection 1 logs in as \<open>alice\<close> to room \<open>bob\<close>.\<close>

definition alice_in :: state where
  "alice_in =
     st (handle example_env 1 (Login (login_payload ''alice'' ''bob'' (Some ''blue'') None))
           example_start)"

text \<open>Then connection 2 logs in as \<open>BOB\<close> with the key of the room.\<close>

definition bob_in :: state where
  "bob_in =
     st (handle example_env 2 (Login (login_payload ''BOB'' ''bob'' (Some ''red'') (Some ''k'')))
           alice_in)"

text \<open>Then the admin mutes \<open>alice\<close>.\<close>

definition alice_muted :: state where
  "alice_muted = st (handle example_env 2 (Message (Some ''/mute alice'')) bob_in)"

text \<open>Or the admin takes the name \<open>carol\<close>.\<close>

definition bob_renamed :: state where
  "bob_renamed = st (handle example_env 2 (Message (Some ''/name carol'')) bob_in)"

text \<open>The two sessions of the registry once \<open>alice\<close> and \<open>BOB\<close> are in.\<close>

definition alice_session :: SocketInfo where
  "alice_session =
     \<lparr>sid = 1, ip = ''10.0.0.1'', streamer = ''bob'', username = ''alice'', admin = False,
      moderator = False, muted = False, color = 0x0000FF\<rparr>"

definition bob_session :: SocketInfo where
  "bob_session =
     \<lparr>sid = 2, ip = ''10.0.0.1'', streamer = ''bob'', username = ''BOB'', admin = True,
      moderator = False, muted = False, color = 0xFF0000\<rparr>"

text \<open>An anonymous viewer, connection 7, pings the room at time 0 and never logs in.\<close>

definition midnight :: env where
  "midnight = \<lparr>now = 0, rnd = 0, remote_addr = ''10.0.0.2'', emotes = (\<lambda>x. x)\<rparr>"

definition pinged :: state where
  "pinged = st (handle midnight 7 (Presence (Some ''Bob'')) example_start)"

section \<open>Facts about dictionaries\<close>

lemma map_fst_dict_set: "set (map fst (dict_set k v d)) = insert k (set (map fst d))"
  by (induction d) auto

lemma distinct_dict_set: "distinct (map fst d) \<Longrightarrow> distinct (map fst (dict_set k v d))"
  by (induction d) (auto simp: map_fst_dict_set[simplified])

lemma distinct_dict_del: "distinct (map f d) \<Longrightarrow> distinct (map f (dict_del k d))"
  by (simp add: dict_del_def distinct_map_filter)

lemma map_of_dict_set: "map_of (dict_set k v d) = (map_of d)(k \<mapsto> v)"
  by (induction d) (auto simp: fun_eq_iff)

lemma map_of_dict_del: "map_of (dict_del k d) = (map_of d)(k := None)"
  by (induction d) (auto simp: dict_del_def fun_eq_iff)

lemma set_dict_set: "set (dict_set k v d) \<subseteq> insert (k, v) (set d)"
  by (induction d) auto

lemma list_all_dict_set: "list_all P d \<Longrightarrow> P (k, v) \<Longrightarrow> list_all P (dict_set k v d)"
  by (induction d) auto

lemma list_all_dict_del: "list_all P d \<Longrightarrow> list_all P (dict_del k d)"
  by (induction d) (auto simp: dict_del_def)

lemma distinct_map_dict_set:
  "distinct (map g d) \<Longrightarrow> g (k, v) \<notin> g ` set d \<Longrightarrow> distinct (map g (dict_set k v d))"
proof (induction d)
  case Nil
  then show ?case by simp
next
  case (Cons p d)
  have "set (dict_set k v d) \<subseteq> insert (k, v) (set d)" by (rule set_dict_set)
  with Cons show ?case by auto
qed

lemma map_dict_set_same:
  "map_of d k = Some v0 \<Longrightarrow> g (k, v) = g (k, v0) \<Longrightarrow> map g (dict_set k v d) = map g d"
  by (induction d) (auto split: if_splits)

lemma dict_set_same: "map_of d k = Some v \<Longrightarrow> dict_set k v d = d"
  by (induction d) (auto split: if_splits)

lemma find_map_of:
  "distinct (map fst d) \<Longrightarrow> find P d = Some (k, v) \<Longrightarrow> map_of d k = Some v \<and> P (k, v)"
  by (induction d) (auto split: if_splits simp: rev_image_eqI)

section \<open>The registry stays well formed\<close>

lemma touch_simps [simp]:
  "socket_to_info (touch e k r s) = socket_to_info s"
  "streamersettings (touch e k r s) = streamersettings s"
  "read_only (touch e k r s) = read_only s"
  "socket_to_presence (touch e k r s) =
     dict_set k \<lparr>presence_sid = k, presence_streamer = r, timestamp = now e\<rparr> (socket_to_presence s)"
  by (simp_all add: touch_def)

lemma registry_ok_touch: "registry_ok s \<Longrightarrow> registry_ok (touch e k r s)"
  by (simp add: registry_ok_def distinct_dict_set)

lemma users_taken_iff:
  "list_ex (\<lambda>user. lower (fst user) = n) (users_in_room s room)
   \<longleftrightarrow> (room, n) \<in> room_name ` set (socket_to_info s)"
  by (force simp: users_in_room_def dict_values_def room_name_def list_ex_iff)

lemma values_taken_iff:
  "list_ex (\<lambda>existing. streamer existing = room \<and> lower (username existing) = n) (dict_values d)
   \<longleftrightarrow> (room, n) \<in> room_name ` set d"
  by (force simp: dict_values_def room_name_def list_ex_iff)

text \<open>The three ways a handler changes the registry, each keeping it well formed.\<close>

lemma registry_ok_replace:
  assumes "registry_ok s" and "dict_get (socket_to_info s) k = Some v0"
    and "sid v = sid v0" and "streamer v = streamer v0" and "username v = username v0"
  shows "registry_ok (s\<lparr>socket_to_info := dict_set k v (socket_to_info s)\<rparr>)"
proof -
  from assms(2) have m: "map_of (socket_to_info s) k = Some v0" by (simp add: dict_get_def)
  then have "(k, v0) \<in> set (socket_to_info s)" by (rule map_of_SomeD)
  with assms(1) have "sid v0 = k" by (auto simp: registry_ok_def list_all_iff)
  moreover have "map room_name (dict_set k v (socket_to_info s)) = map room_name (socket_to_info s)"
    using m assms(4,5) by (intro map_dict_set_same) (simp_all add: room_name_def)
  ultimately show ?thesis
    using assms(1,3) by (simp add: registry_ok_def distinct_dict_set list_all_dict_set)
qed

lemma registry_ok_rename:
  assumes "registry_ok s" and "dict_get (socket_to_info s) k = Some v0"
    and "sid v = sid v0" and "room_name (k, v) \<notin> room_name ` set (socket_to_info s)"
  shows "registry_ok (s\<lparr>socket_to_info := dict_set k v (socket_to_info s)\<rparr>)"
proof -
  from assms(2) have "(k, v0) \<in> set (socket_to_info s)"
    by (simp add: dict_get_def map_of_SomeD)
  with assms(1) have "sid v0 = k" by (auto simp: registry_ok_def list_all_iff)
  then show ?thesis
    using assms(1,3,4)
    by (simp add: registry_ok_def distinct_dict_set list_all_dict_set distinct_map_dict_set)
qed

lemma registry_ok_insert:
  assumes "registry_ok s" and "sid v = k" and "room_name (k, v) \<notin> room_name ` set (socket_to_info s)"
  shows "registry_ok (s\<lparr>socket_to_info := dict_set k v (socket_to_info s)\<rparr>)"
  using assms
  by (simp add: registry_ok_def distinct_dict_set list_all_dict_set distinct_map_dict_set)

lemma registry_ok_del_info:
  "registry_ok s \<Longrightarrow> registry_ok (s\<lparr>socket_to_info := dict_del k (socket_to_info s)\<rparr>)"
  by (simp add: registry_ok_def distinct_dict_del list_all_dict_del)

lemma find_user_entry:
  assumes "registry_ok s" and "find_user s n room = Some (k, v)"
  shows "dict_get (socket_to_info s) k = Some v \<and> lower (username v) = n \<and> streamer v = room
         \<and> sid v = k"
proof -
  from assms have d: "distinct (map fst (socket_to_info s))" by (simp add: registry_ok_def)
  from find_map_of[OF d assms(2)[unfolded find_user_def]]
  have m: "map_of (socket_to_info s) k = Some v" and p: "lower (username v) = n \<and> streamer v = room"
    by simp_all
  from m have "(k, v) \<in> set (socket_to_info s)" by (rule map_of_SomeD)
  with assms(1) have "sid v = k" by (auto simp: registry_ok_def list_all_iff)
  with m p show ?thesis by (simp add: dict_get_def)
qed

lemma st_ret [simp]: "st (ret s es) = s" "out (ret s es) = es" "exc (ret s es) = None"
  by (simp_all add: ret_def)

lemma st_raise [simp]: "st (raise s es x) = s" "out (raise s es x) = es" "exc (raise s es x) = Some x"
  by (simp_all add: raise_def)

text \<open>Every command, and with them every handler, keeps the registry well formed.\<close>

lemma registry_ok_say: "registry_ok s \<Longrightarrow> registry_ok (st (say e k me s ev m))"
  by (simp add: say_def)

lemma registry_ok_cmd_color:
  "registry_ok s \<Longrightarrow> dict_get (socket_to_info s) k = Some me
   \<Longrightarrow> registry_ok (st (cmd_color e k me s m))"
  by (auto simp: cmd_color_def Let_def intro: registry_ok_replace split: sum.splits option.splits)

lemma registry_ok_cmd_name:
  "registry_ok s \<Longrightarrow> dict_get (socket_to_info s) k = Some me
   \<Longrightarrow> registry_ok (st (cmd_name k me s m))"
proof -
  assume ok: "registry_ok s" and me: "dict_get (socket_to_info s) k = Some me"
  have "registry_ok (s\<lparr>socket_to_info := dict_set k (me\<lparr>username := n\<rparr>) (socket_to_info s)\<rparr>)"
    if "(streamer me, lower n) \<notin> room_name ` set (socket_to_info s)" for n
    using ok me that by (intro registry_ok_rename[where ?v0.0 = me]) (simp_all add: room_name_def)
  with ok show ?thesis
    by (simp add: cmd_name_def Let_def users_taken_iff)
qed

lemma registry_ok_cmd_help: "registry_ok s \<Longrightarrow> registry_ok (st (cmd_help k me s))"
  by (simp add: cmd_help_def Let_def)

lemma registry_ok_cmd_users: "registry_ok s \<Longrightarrow> registry_ok (st (cmd_users k me s))"
  by (simp add: cmd_users_def)

lemma registry_ok_cmd_settings: "registry_ok s \<Longrightarrow> registry_ok (st (cmd_settings k me s c))"
  by (simp add: cmd_settings_def Let_def)

lemma registry_ok_toggle:
  assumes "registry_ok s" and "find_user s n room = Some (k, v)"
    and "sid v' = sid v" and "streamer v' = streamer v" and "username v' = username v"
  shows "registry_ok (s\<lparr>socket_to_info := dict_set k v' (socket_to_info s)\<rparr>)"
  using find_user_entry[OF assms(1,2)] assms(1,3-5) by (intro registry_ok_replace[where ?v0.0 = v]) simp_all

lemma registry_ok_cmd_mute: "registry_ok s \<Longrightarrow> registry_ok (st (cmd_mute k me s c m))"
  by (auto simp: cmd_mute_def Let_def split: option.splits intro: registry_ok_toggle)

lemma registry_ok_cmd_unmute: "registry_ok s \<Longrightarrow> registry_ok (st (cmd_unmute k me s c m))"
  by (auto simp: cmd_unmute_def Let_def split: option.splits intro: registry_ok_toggle)

lemma registry_ok_cmd_mod: "registry_ok s \<Longrightarrow> registry_ok (st (cmd_mod k me s c m))"
  by (auto simp: cmd_mod_def Let_def split: option.splits intro: registry_ok_toggle)

lemma registry_ok_cmd_demod: "registry_ok s \<Longrightarrow> registry_ok (st (cmd_demod k me s c m))"
  by (auto simp: cmd_demod_def Let_def split: option.splits intro: registry_ok_toggle)

lemma registry_ok_cmd_description:
  "registry_ok s \<Longrightarrow> registry_ok (st (cmd_description e k me s c m))"
  by (simp add: cmd_description_def update_description_def registry_ok_def)

lemma registry_ok_cmd_password:
  "registry_ok s \<Longrightarrow> registry_ok (st (cmd_password k me s c m))"
  by (simp add: cmd_password_def update_streampass_def registry_ok_def)

lemmas registry_ok_cmds =
  registry_ok_say registry_ok_cmd_color registry_ok_cmd_name registry_ok_cmd_help
  registry_ok_cmd_users registry_ok_cmd_settings registry_ok_cmd_mute registry_ok_cmd_unmute
  registry_ok_cmd_mod registry_ok_cmd_demod registry_ok_cmd_description registry_ok_cmd_password

lemma registry_ok_dispatch:
  "registry_ok s \<Longrightarrow> dict_get (socket_to_info s) k = Some me
   \<Longrightarrow> registry_ok (st (dispatch e k me s c m))"
  by (simp add: dispatch_def registry_ok_cmds)

lemma registry_ok_handle_message:
  "registry_ok s \<Longrightarrow> registry_ok (st (handle_message e k json s))"
  by (auto simp: handle_message_def Let_def registry_ok_touch registry_ok_dispatch registry_ok_say
           split: option.splits)

lemma registry_ok_login_finish:
  "registry_ok s \<Longrightarrow> registry_ok (st (login_finish e k s room ju a c))"
proof -
  assume ok: "registry_ok s"
  have "registry_ok (s\<lparr>socket_to_info := dict_set k v (socket_to_info s)\<rparr>)"
    if "(streamer v, lower (username v)) \<notin> room_name ` set (socket_to_info s)" and "sid v = k" for v
    using ok that by (intro registry_ok_insert) (simp_all add: room_name_def)
  with ok show ?thesis
    by (simp add: login_finish_def Let_def values_taken_iff)
qed

lemma registry_ok_handle_login:
  "registry_ok s \<Longrightarrow> registry_ok (st (handle_login e k json s))"
  by (auto simp: handle_login_def Let_def registry_ok_touch registry_ok_login_finish
           split: option.splits sum.splits)

lemma registry_ok_connect: "registry_ok s \<Longrightarrow> registry_ok (st (connect k s))"
  by (simp add: connect_def registry_ok_del_info)

lemma registry_ok_disconnect: "registry_ok s \<Longrightarrow> registry_ok (st (disconnect k s))"
  by (auto simp: disconnect_def Let_def registry_ok_def distinct_dict_del list_all_dict_del
           split: option.splits)

lemma registry_ok_handle_presence: "registry_ok s \<Longrightarrow> registry_ok (st (handle_presence e k json s))"
  by (simp add: handle_presence_def registry_ok_touch split: option.splits)

lemma registry_ok_return_color: "registry_ok s \<Longrightarrow> registry_ok (st (return_color k s))"
  by (simp add: return_color_def split: option.splits)

lemma registry_ok_handle_drawing: "registry_ok s \<Longrightarrow> registry_ok (st (handle_drawing e k json s))"
  by (simp add: handle_drawing_def Let_def registry_ok_touch split: option.splits)

lemma registry_ok_handle: "registry_ok s \<Longrightarrow> registry_ok (st (handle e k ev s))"
  by (cases ev)
     (simp_all add: registry_ok_connect registry_ok_disconnect registry_ok_handle_presence
        registry_ok_handle_login registry_ok_handle_message registry_ok_return_color
        registry_ok_handle_drawing)

lemma reachable_registry_ok: "reachable s \<Longrightarrow> registry_ok s"
  by (induction rule: reachable.induct) (simp_all add: registry_ok_def registry_ok_handle[unfolded registry_ok_def])

section \<open>The example states\<close>

lemma reachable_example_start: "reachable example_start"
  by (rule reachable.init) (simp_all add: example_start_def)

lemma reachable_alice_in: "reachable alice_in"
  unfolding alice_in_def by (rule reachable.step) (rule reachable_example_start)

lemma reachable_bob_in: "reachable bob_in"
  unfolding bob_in_def by (rule reachable.step) (rule reachable_alice_in)

lemma registry_bob_in: "socket_to_info bob_in = [(1, alice_session), (2, bob_session)]"
  by code_simp

section \<open>Unique names within a room\<close>

text \<open>
  Claim C3. In every reachable state, two different connections whose sessions are in the
  same room have display names that differ after case normalisation. Reachable states
  are closed under every handler (login's insert and rename among them), and each
  handler keeps the registry well formed (\<open>registry_ok_handle\<close>).
\<close>

theorem names_unique_in_room:
  assumes "reachable s"
    and "dict_get (socket_to_info s) k1 = Some i1"
    and "dict_get (socket_to_info s) k2 = Some i2"
    and "k1 \<noteq> k2"
    and "streamer i1 = streamer i2"
  shows "lower (username i1) \<noteq> lower (username i2)"
proof
  assume same: "lower (username i1) = lower (username i2)"
  from assms(1) have "registry_ok s" by (rule reachable_registry_ok)
  then have "inj_on room_name (set (socket_to_info s))"
    by (simp add: registry_ok_def distinct_map)
  moreover from assms(2,3) have "(k1, i1) \<in> set (socket_to_info s)" "(k2, i2) \<in> set (socket_to_info s)"
    by (simp_all add: dict_get_def map_of_SomeD)
  moreover from same assms(5) have "room_name (k1, i1) = room_name (k2, i2)"
    by (simp add: room_name_def)
  ultimately have "(k1, i1) = (k2, i2)" by (auto dest: inj_onD)
  with assms(4) show False by simp
qed

theorem names_unique_in_room_witness:
  "reachable bob_in
   \<and> dict_get (socket_to_info bob_in) 1 = Some alice_session
   \<and> dict_get (socket_to_info bob_in) 2 = Some bob_session
   \<and> streamer alice_session = streamer bob_session
   \<and> lower (username alice_session) \<noteq> lower (username bob_session)"
proof -
  have a: "dict_get (socket_to_info bob_in) 1 = Some alice_session"
    and b: "dict_get (socket_to_info bob_in) 2 = Some bob_session"
    by (simp_all add: registry_bob_in dict_get_def)
  have r: "streamer alice_session = streamer bob_session"
    by (simp add: alice_session_def bob_session_def)
  have n: "(1::nat) \<noteq> 2" by simp
  from names_unique_in_room[OF reachable_bob_in a b n r] reachable_bob_in a b r
  show ?thesis by simp
qed

section \<open>The viewer count\<close>

lemma card_live:
  assumes "distinct (map fst d)"
  shows "card {k. \<exists>p. map_of d k = Some p \<and> P p} = length (filter P (map snd d))"
proof -
  have "{k. \<exists>p. map_of d k = Some p \<and> P p} = set (map fst (filter (P \<circ> snd) d))"
    using assms by (auto simp: image_iff) 
  moreover have "distinct (map fst (filter (P \<circ> snd) d))"
    using assms by (rule distinct_map_filter)
  ultimately have "card {k. \<exists>p. map_of d k = Some p \<and> P p} = length (map fst (filter (P \<circ> snd) d))"
    by (simp only: distinct_card)
  also have "\<dots> = length (filter P (map snd d))"
    by (simp add: filter_map)
  finally show ?thesis .
qed

text \<open>
  Claim C8. At every time \<open>t\<close> of observation and for every room, \<open>stream_count\<close> is
  the number of distinct connection ids that hold a presence record for the room stamped
  at \<open>t - 30\<close> or later. A connection that pinged at time 0 is counted at time 29 and not
  at time 31; nothing is asked of the session registry, so a connection without a
  session counts too.
\<close>

theorem viewer_count:
  assumes "reachable s"
  shows "stream_count t s room = card (live_sids t s room)
         \<and> (now e = 0 \<longrightarrow>
               k \<in> live_sids 29 (st (handle_presence e k (Some r) s)) (lower r)
               \<and> k \<notin> live_sids 31 (st (handle_presence e k (Some r) s)) (lower r))"
proof -
  from assms have d: "distinct (map fst (socket_to_presence s))"
    using reachable_registry_ok by (simp add: registry_ok_def)
  have "stream_count t s room = card (live_sids t s room)"
    by (simp only: stream_count_def live_sids_def dict_get_def dict_values_def Let_def
                   card_live[OF d])
  moreover have "now e = 0 \<longrightarrow>
               k \<in> live_sids 29 (st (handle_presence e k (Some r) s)) (lower r)
               \<and> k \<notin> live_sids 31 (st (handle_presence e k (Some r) s)) (lower r)"
    by (simp add: handle_presence_def live_sids_def dict_get_def map_of_dict_set)
  ultimately show ?thesis by simp
qed

theorem viewer_count_witness:
  "reachable pinged \<and> now midnight = 0
   \<and> socket_to_info pinged = []
   \<and> stream_count 29 pinged ''bob'' = 1 \<and> card (live_sids 29 pinged ''bob'') = 1
   \<and> stream_count 31 pinged ''bob'' = 0 \<and> card (live_sids 31 pinged ''bob'') = 0
   \<and> 7 \<in> live_sids 29 (st (handle_presence midnight 7 (Some ''Bob'') example_start)) (lower ''Bob'')
   \<and> 7 \<notin> live_sids 31 (st (handle_presence midnight 7 (Some ''Bob'') example_start)) (lower ''Bob'')"
proof -
  have r: "reachable pinged"
    unfolding pinged_def by (rule reachable.step) (rule reachable_example_start)
  have m: "now midnight = 0" by (simp add: midnight_def)
  have i: "socket_to_info pinged = []" by code_simp
  have c29: "stream_count 29 pinged ''bob'' = 1" by code_simp
  have c31: "stream_count 31 pinged ''bob'' = 0" by code_simp
  from viewer_count[OF r, of 29 "''bob''"] c29
  have l29: "card (live_sids 29 pinged ''bob'') = 1" by simp
  from viewer_count[OF r, of 31 "''bob''"] c31
  have l31: "card (live_sids 31 pinged ''bob'') = 0" by simp
  from viewer_count[OF reachable_example_start, of _ _ midnight 7 "''Bob''"] m
  have "7 \<in> live_sids 29 (st (handle_presence midnight 7 (Some ''Bob'') example_start)) (lower ''Bob'')
      \<and> 7 \<notin> live_sids 31 (st (handle_presence midnight 7 (Some ''Bob'') example_start)) (lower ''Bob'')"
    by simp
  with r m i c29 c31 l29 l31 show ?thesis by simp
qed

section \<open>The admin flag\<close>

text \<open>No command changes the admin flag of a session, and none adds a session.\<close>

lemma kept_replace:
  assumes "dict_get (socket_to_info s) k = Some v0" and "admin v = admin v0"
    and "dict_get (dict_set k v (socket_to_info s)) k' = Some i'"
  shows "\<exists>i. dict_get (socket_to_info s) k' = Some i \<and> admin i' = admin i"
  using assms by (cases "k' = k") (auto simp: dict_get_def map_of_dict_set)

lemma kept_say:
  "dict_get (socket_to_info (st (say e k me s ev m))) k' = Some i'
   \<Longrightarrow> \<exists>i. dict_get (socket_to_info s) k' = Some i \<and> admin i' = admin i"
  by (simp add: say_def split: if_splits)

lemma kept_cmd_color:
  "dict_get (socket_to_info s) k = Some me
   \<Longrightarrow> dict_get (socket_to_info (st (cmd_color e k me s m))) k' = Some i'
   \<Longrightarrow> \<exists>i. dict_get (socket_to_info s) k' = Some i \<and> admin i' = admin i"
  by (auto simp: cmd_color_def Let_def split: if_splits sum.splits option.splits
           dest: kept_replace[rotated 2])

lemma kept_cmd_name:
  "dict_get (socket_to_info s) k = Some me
   \<Longrightarrow> dict_get (socket_to_info (st (cmd_name k me s m))) k' = Some i'
   \<Longrightarrow> \<exists>i. dict_get (socket_to_info s) k' = Some i \<and> admin i' = admin i"
  by (auto simp: cmd_name_def Let_def split: if_splits dest: kept_replace[rotated 2])

lemma kept_cmd_help:
  "dict_get (socket_to_info (st (cmd_help k me s))) k' = Some i'
   \<Longrightarrow> \<exists>i. dict_get (socket_to_info s) k' = Some i \<and> admin i' = admin i"
  by (simp add: cmd_help_def Let_def)

lemma kept_cmd_users:
  "dict_get (socket_to_info (st (cmd_users k me s))) k' = Some i'
   \<Longrightarrow> \<exists>i. dict_get (socket_to_info s) k' = Some i \<and> admin i' = admin i"
  by (simp add: cmd_users_def)

lemma kept_cmd_settings:
  "dict_get (socket_to_info (st (cmd_settings k me s c))) k' = Some i'
   \<Longrightarrow> \<exists>i. dict_get (socket_to_info s) k' = Some i \<and> admin i' = admin i"
  by (simp add: cmd_settings_def Let_def split: if_splits)

lemma kept_toggle:
  assumes "registry_ok s" and "find_user s n room = Some (k, v)" and "admin v' = admin v"
    and "dict_get (dict_set k v' (socket_to_info s)) k' = Some i'"
  shows "\<exists>i. dict_get (socket_to_info s) k' = Some i \<and> admin i' = admin i"
  using find_user_entry[OF assms(1,2)] assms(3,4) by (auto intro: kept_replace)

lemma kept_cmd_mute:
  assumes "registry_ok s" and "dict_get (socket_to_info (st (cmd_mute k me s c m))) k' = Some i'"
  shows "\<exists>i. dict_get (socket_to_info s) k' = Some i \<and> admin i' = admin i"
proof (cases "find_user s (lower (strip m)) (streamer me)")
  case None
  with assms(2) show ?thesis
    by (simp add: cmd_mute_def Let_def split: if_splits)
next
  case (Some p)
  then obtain a b where f: "find_user s (lower (strip m)) (streamer me) = Some (a, b)"
    by (cases p) simp
  with assms(2)
  have "dict_get (socket_to_info s) k' = Some i'
        \<or> dict_get (dict_set a (b\<lparr>muted := True\<rparr>) (socket_to_info s)) k' = Some i'"
    by (simp add: cmd_mute_def Let_def split: if_splits)
  then show ?thesis
    using kept_toggle[OF assms(1) f, of "b\<lparr>muted := True\<rparr>" k' i'] by auto
qed

lemma kept_cmd_unmute:
  assumes "registry_ok s" and "dict_get (socket_to_info (st (cmd_unmute k me s c m))) k' = Some i'"
  shows "\<exists>i. dict_get (socket_to_info s) k' = Some i \<and> admin i' = admin i"
proof (cases "find_user s (lower (strip m)) (streamer me)")
  case None
  with assms(2) show ?thesis
    by (simp add: cmd_unmute_def Let_def split: if_splits)
next
  case (Some p)
  then obtain a b where f: "find_user s (lower (strip m)) (streamer me) = Some (a, b)"
    by (cases p) simp
  with assms(2)
  have "dict_get (socket_to_info s) k' = Some i'
        \<or> dict_get (dict_set a (b\<lparr>muted := False\<rparr>) (socket_to_info s)) k' = Some i'"
    by (simp add: cmd_unmute_def Let_def split: if_splits)
  then show ?thesis
    using kept_toggle[OF assms(1) f, of "b\<lparr>muted := False\<rparr>" k' i'] by auto
qed

lemma kept_cmd_mod:
  assumes "registry_ok s" and "dict_get (socket_to_info (st (cmd_mod k me s c m))) k' = Some i'"
  shows "\<exists>i. dict_get (socket_to_info s) k' = Some i \<and> admin i' = admin i"
proof (cases "find_user s (lower (strip m)) (streamer me)")
  case None
  with assms(2) show ?thesis
    by (simp add: cmd_mod_def Let_def split: if_splits)
next
  case (Some p)
  then obtain a b where f: "find_user s (lower (strip m)) (streamer me) = Some (a, b)"
    by (cases p) simp
  with assms(2)
  have "dict_get (socket_to_info s) k' = Some i'
        \<or> dict_get (dict_set a (b\<lparr>moderator := True\<rparr>) (socket_to_info s)) k' = Some i'"
    by (simp add: cmd_mod_def Let_def split: if_splits)
  then show ?thesis
    using kept_toggle[OF assms(1) f, of "b\<lparr>moderator := True\<rparr>" k' i'] by auto
qed

lemma kept_cmd_demod:
  assumes "registry_ok s" and "dict_get (socket_to_info (st (cmd_demod k me s c m))) k' = Some i'"
  shows "\<exists>i. dict_get (socket_to_info s) k' = Some i \<and> admin i' = admin i"
proof (cases "find_user s (lower (strip m)) (streamer me)")
  case None
  with assms(2) show ?thesis
    by (simp add: cmd_demod_def Let_def split: if_splits)
next
  case (Some p)
  then obtain a b where f: "find_user s (lower (strip m)) (streamer me) = Some (a, b)"
    by (cases p) simp
  with assms(2)
  have "dict_get (socket_to_info s) k' = Some i'
        \<or> dict_get (dict_set a (b\<lparr>moderator := False\<rparr>) (socket_to_info s)) k' = Some i'"
    by (simp add: cmd_demod_def Let_def split: if_splits)
  then show ?thesis
    using kept_toggle[OF assms(1) f, of "b\<lparr>moderator := False\<rparr>" k' i'] by auto
qed

lemma kept_cmd_description:
  "dict_get (socket_to_info (st (cmd_description e k me s c m))) k' = Some i'
   \<Longrightarrow> \<exists>i. dict_get (socket_to_info s) k' = Some i \<and> admin i' = admin i"
  by (simp add: cmd_description_def update_description_def split: if_splits)

lemma kept_cmd_password:
  "dict_get (socket_to_info (st (cmd_password k me s c m))) k' = Some i'
   \<Longrightarrow> \<exists>i. dict_get (socket_to_info s) k' = Some i \<and> admin i' = admin i"
  by (simp add: cmd_password_def update_streampass_def split: if_splits)

lemmas kept_cmds =
  kept_say kept_cmd_color kept_cmd_name kept_cmd_help kept_cmd_users kept_cmd_settings
  kept_cmd_mute kept_cmd_unmute kept_cmd_mod kept_cmd_demod kept_cmd_description
  kept_cmd_password

text \<open>A property of the outcome of every command is one of the outcome of \<open>dispatch\<close>.\<close>

lemma dispatch_cases:
  assumes "\<And>ev. P (say e k me s ev m)"
    and "P (cmd_color e k me s m)" and "P (cmd_name k me s m)" and "P (cmd_help k me s)"
    and "P (cmd_users k me s)" and "P (cmd_settings k me s c)" and "P (cmd_mute k me s c m)"
    and "P (cmd_unmute k me s c m)" and "P (cmd_mod k me s c m)" and "P (cmd_demod k me s c m)"
    and "P (cmd_description e k me s c m)" and "P (cmd_password k me s c m)"
    and "P (ret s [unrecognized k c])"
  shows "P (dispatch e k me s c m)"
  unfolding dispatch_def using assms by (simp only: split: if_split) blast

lemma kept_dispatch:
  assumes "registry_ok s" and "dict_get (socket_to_info s) k = Some me"
    and "dict_get (socket_to_info (st (dispatch e k me s c m))) k' = Some i'"
  shows "\<exists>i. dict_get (socket_to_info s) k' = Some i \<and> admin i' = admin i"
proof -
  have "dict_get (socket_to_info (st (dispatch e k me s c m))) k' = Some i'
        \<longrightarrow> (\<exists>i. dict_get (socket_to_info s) k' = Some i \<and> admin i' = admin i)"
    by (rule dispatch_cases) (use assms(1,2) in \<open>auto dest: kept_cmds\<close>)
  with assms(3) show ?thesis by simp
qed

lemma kept_handle_message:
  assumes "registry_ok s" and "dict_get (socket_to_info (st (handle_message e k json s))) k' = Some i'"
  shows "\<exists>i. dict_get (socket_to_info s) k' = Some i \<and> admin i' = admin i"
proof (cases "\<exists>jm me. json = Some jm \<and> jm \<noteq> [] \<and> strip jm \<noteq> []
                 \<and> dict_get (socket_to_info s) k = Some me")
  case False
  with assms(2) show ?thesis
    by (auto simp: handle_message_def Let_def split: option.splits if_splits)
next
  case True
  then obtain jm me where j: "json = Some jm" "jm \<noteq> []" "strip jm \<noteq> []"
    and me: "dict_get (socket_to_info s) k = Some me" by blast
  let ?s1 = "touch e k (streamer me) s"
  have ok1: "registry_ok ?s1" using assms(1) by (rule registry_ok_touch)
  have me1: "dict_get (socket_to_info ?s1) k = Some me" using me by simp
  from assms(2) j me
  have "dict_get (socket_to_info (st (dispatch e k me ?s1 (fst (split_command (strip jm)))
           (snd (split_command (strip jm)))))) k' = Some i'
      \<or> dict_get (socket_to_info (st (say e k me ?s1 ''message received'' (strip jm)))) k' = Some i'"
    by (simp add: handle_message_def Let_def split: if_splits)
  then have "\<exists>i. dict_get (socket_to_info ?s1) k' = Some i \<and> admin i' = admin i"
    using kept_dispatch[OF ok1 me1] kept_say by blast
  then show ?thesis by simp
qed

lemma singleton_hd: "length xs = Suc 0 \<Longrightarrow> xs = [hd xs]"
  by (cases xs) simp_all

lemma login_finish_entry:
  assumes "dict_get (socket_to_info (st (login_finish e k s room ju a c))) k' = Some i'"
  shows "dict_get (socket_to_info s) k' = Some i'
         \<or> (k' = k \<and> username i' = ju \<and> streamer i' = room \<and> admin i' = a
             \<and> \<not> moderator i' \<and> \<not> muted i' \<and> color i' = c)"
  using assms
  by (cases "k' = k")
     (auto simp: login_finish_def Let_def dict_get_def map_of_dict_set split: if_splits)

lemma handle_login_entry:
  assumes "dict_get (socket_to_info (st (handle_login e k json s))) k' = Some i'"
  shows "dict_get (socket_to_info s) k' = Some i'
         \<or> (k' = k \<and> \<not> dict_has (socket_to_info s) k
             \<and> json_username json = Some (username i')
             \<and> (admin i' \<longrightarrow>
                   lower (username i') = streamer i'
                   \<and> (\<exists>row. select_streamer s (streamer i') = [row]
                             \<and> json_key json = Some (row_key row))))"
proof (cases "dict_get (socket_to_info s) k' = Some i'")
  case True
  then show ?thesis by simp
next
  case False
  note old = this
  have sel: "select_streamer (touch e k r s) n = select_streamer s n" for r n
    by (simp add: select_streamer_def)
  from assms old obtain ju js c where
    nk: "\<not> dict_has (socket_to_info s) k" and ju: "json_username json = Some ju"
    and js: "json_streamer json = Some js"
    and len: "length (select_streamer s (lower js)) = 1"
    and fin: "(lower ju = lower js \<and> (\<exists>key. json_key json = Some key
                  \<and> key = row_key (hd (select_streamer s (lower js)))
                  \<and> dict_get (socket_to_info (st (login_finish e k (touch e k (lower js) s)
                        (lower js) ju True c))) k' = Some i'))
            \<or> (lower ju \<noteq> lower js
                \<and> dict_get (socket_to_info (st (login_finish e k (touch e k (lower js) s)
                        (lower js) ju False c))) k' = Some i')"
    by (auto simp: handle_login_def Let_def sel split: if_splits option.splits sum.splits)
  from len have row: "select_streamer s (lower js) = [hd (select_streamer s (lower js))]"
    by (simp add: singleton_hd)
  from fin show ?thesis
  proof
    assume a: "lower ju = lower js \<and> (\<exists>key. json_key json = Some key
                  \<and> key = row_key (hd (select_streamer s (lower js)))
                  \<and> dict_get (socket_to_info (st (login_finish e k (touch e k (lower js) s)
                        (lower js) ju True c))) k' = Some i')"
    then obtain key where key: "json_key json = Some key"
        "key = row_key (hd (select_streamer s (lower js)))"
      and e: "dict_get (socket_to_info (st (login_finish e k (touch e k (lower js) s)
                        (lower js) ju True c))) k' = Some i'" by blast
    from login_finish_entry[OF e] old
    have "k' = k \<and> username i' = ju \<and> streamer i' = lower js" by simp
    with a nk ju key row show ?thesis by auto
  next
    assume b: "lower ju \<noteq> lower js
                \<and> dict_get (socket_to_info (st (login_finish e k (touch e k (lower js) s)
                        (lower js) ju False c))) k' = Some i'"
    then have e: "dict_get (socket_to_info (st (login_finish e k (touch e k (lower js) s)
                        (lower js) ju False c))) k' = Some i'" by simp
    from login_finish_entry[OF e] old
    have "k' = k \<and> username i' = ju \<and> \<not> admin i'" by simp
    with nk ju show ?thesis by simp
  qed
qed

text \<open>
  Claim C1, as amended. Taking a step from a reachable state, every session of the
  registry afterwards either was there before with the same admin flag, or has just
  been created by a login of its own connection under the name of the payload; and a
  session so created is an admin only if its name, lower-cased, is its room, the room
  has exactly one row in the settings table, and the key of the payload is the key of
  that row. No handler changes the admin flag of a session; \<open>/name\<close> and \<open>/nick\<close> change
  the name of an admin session and keep the flag.
\<close>

theorem admin_flag_step:
  assumes "reachable s"
    and "dict_get (socket_to_info (st (handle e k ev s))) k' = Some i'"
  shows "(\<exists>i. dict_get (socket_to_info s) k' = Some i \<and> admin i' = admin i)
         \<or> (\<exists>json. ev = Login json \<and> k' = k \<and> \<not> dict_has (socket_to_info s) k
                \<and> json_username json = Some (username i')
                \<and> (admin i' \<longrightarrow>
                      lower (username i') = streamer i'
                      \<and> (\<exists>row. select_streamer s (streamer i') = [row]
                                \<and> json_key json = Some (row_key row))))"
proof -
  from assms(1) have ok: "registry_ok s" by (rule reachable_registry_ok)
  show ?thesis
  proof (cases ev)
    case Connect
    with assms(2) show ?thesis
      by (auto simp: connect_def dict_get_def map_of_dict_del split: if_splits)
  next
    case Disconnect
    with assms(2) show ?thesis
      by (auto simp: disconnect_def Let_def dict_get_def map_of_dict_del
               split: if_splits option.splits)
  next
    case (Presence json)
    with assms(2) show ?thesis
      by (simp add: handle_presence_def split: option.splits)
  next
    case (Login json)
    with assms(2) handle_login_entry[of e k json s k' i'] show ?thesis by auto
  next
    case (Message json)
    with assms(2) kept_handle_message[OF ok, of e k json k' i'] show ?thesis by simp
  next
    case GetColor
    with assms(2) show ?thesis
      by (simp add: return_color_def split: option.splits)
  next
    case (Drawing json)
    with assms(2) show ?thesis
      by (simp add: handle_drawing_def Let_def split: option.splits if_splits)
  qed
qed

theorem admin_flag_step_witness:
  "reachable alice_in
   \<and> dict_get (socket_to_info bob_in) 2 = Some bob_session
   \<and> dict_get (socket_to_info alice_in) 2 = None
   \<and> admin bob_session
   \<and> lower (username bob_session) = streamer bob_session
   \<and> (\<exists>row. select_streamer alice_in (streamer bob_session) = [row] \<and> ''k'' = row_key row)"
proof -
  let ?json = "login_payload ''BOB'' ''bob'' (Some ''red'') (Some ''k'')"
  have b: "dict_get (socket_to_info (st (handle example_env 2 (Login ?json) alice_in))) 2
           = Some bob_session"
    using registry_bob_in by (simp add: bob_in_def dict_get_def)
  have n: "dict_get (socket_to_info alice_in) 2 = None" by code_simp
  have a: "admin bob_session" by (simp add: bob_session_def)
  have k: "json_key ?json = Some ''k''" by (simp add: login_payload_def)
  from admin_flag_step[OF reachable_alice_in b] n a k
  have "lower (username bob_session) = streamer bob_session
        \<and> (\<exists>row. select_streamer alice_in (streamer bob_session) = [row] \<and> ''k'' = row_key row)"
    by auto
  with reachable_alice_in b n a show ?thesis by (simp add: bob_in_def)
qed

text \<open>
  The claim as written fails: the admin of room \<open>bob\<close> takes the name \<open>carol\<close> and is
  still an admin, in a reachable state.
\<close>

theorem admin_rename_counterexample:
  "reachable bob_renamed \<and> \<not> admin_named_as_room bob_renamed"
proof -
  have "reachable bob_renamed"
    unfolding bob_renamed_def by (rule reachable.step) (rule reachable_bob_in)
  moreover have "\<not> admin_named_as_room bob_renamed" by code_simp
  ultimately show ?thesis by simp
qed

section \<open>Muting twice\<close>

lemma find_dict_set:
  "find P d = Some (k, v) \<Longrightarrow> P (k, v') \<Longrightarrow> find P (dict_set k v' d) = Some (k, v')"
  by (induction d) (auto split: if_splits)

lemma dict_set_idem: "dict_set k v (dict_set k v d) = dict_set k v d"
  by (induction d) auto

lemma strip_Nil [simp]: "strip [] = []"
  by (simp add: strip_def)

lemma dispatch_mute:
  "c = ''/mute'' \<or> c = ''/quiet'' \<Longrightarrow> dispatch e k me s c m = cmd_mute k me s c m"
  by (erule disjE) (simp_all add: dispatch_def)

lemma handle_message_command:
  assumes "dict_get (socket_to_info s) k = Some me"
    and "strip jm \<noteq> []" and "hd (strip jm) = CHR ''/''"
    and "split_command (strip jm) = (c, arg)"
  shows "handle_message e k (Some jm) s = dispatch e k me (touch e k (streamer me) s) c arg"
proof -
  from assms(2) have "jm \<noteq> []" by auto
  with assms show ?thesis by (simp add: handle_message_def Let_def)
qed

lemma cmd_mute_found:
  assumes "admin me \<or> moderator me"
    and "find_user s (lower (strip arg)) (streamer me) = Some (tk, target)"
  shows "cmd_mute k me s c arg =
           ret (s\<lparr>socket_to_info := dict_set tk (target\<lparr>muted := True\<rparr>) (socket_to_info s)\<rparr>)
             (if muted target
              then [server_to k (''User '' @ quoted (lower (strip arg)) @ '' is already muted.'')]
              else [server_to k (''User '' @ quoted (lower (strip arg)) @ '' has been muted.''),
                    server_to (sid target) ''You have been muted.''])"
  using assms by (auto simp: cmd_mute_def Let_def)

text \<open>
  Claim C9, as amended. A session with moderator or admin privilege sends \<open>/mute\<close> (or
  \<open>/quiet\<close>) naming a session of its room, up to case. If the target is not muted, its
  muted flag is set, the caller is told that the user has been muted and the target that
  it has been muted. If the target is muted already, the registry and the settings table
  stay as they are and the caller alone is told that the user is already muted. In both
  cases a second identical call, at any later time, only tells the caller that the user is
  already muted and leaves the registry and the settings table as the first call left
  them. Every call refreshes the presence record of the caller, so the state as a whole
  is not unchanged.
\<close>

theorem mute_twice:
  assumes "reachable s"
    and "dict_get (socket_to_info s) k = Some me"
    and "admin me \<or> moderator me"
    and "strip jm \<noteq> []" and "hd (strip jm) = CHR ''/''"
    and "split_command (strip jm) = (c, arg)"
    and "c = ''/mute'' \<or> c = ''/quiet''"
    and "find_user s (lower (strip arg)) (streamer me) = Some (tk, target)"
  shows "(\<not> muted target \<longrightarrow>
            handle_message e k (Some jm) s =
              ret ((touch e k (streamer me) s)
                     \<lparr>socket_to_info := dict_set tk (target\<lparr>muted := True\<rparr>) (socket_to_info s)\<rparr>)
                [server_to k (''User '' @ quoted (lower (strip arg)) @ '' has been muted.''),
                 server_to tk ''You have been muted.''])
         \<and> (muted target \<longrightarrow>
              handle_message e k (Some jm) s =
                ret (touch e k (streamer me) s)
                  [server_to k (''User '' @ quoted (lower (strip arg)) @ '' is already muted.'')])
         \<and> handle_message e' k (Some jm) (st (handle_message e k (Some jm) s)) =
              ret (touch e' k (streamer me) (st (handle_message e k (Some jm) s)))
                [server_to k (''User '' @ quoted (lower (strip arg)) @ '' is already muted.'')]"
proof -
  let ?name = "lower (strip arg)"
  let ?room = "streamer me"
  let ?target' = "target\<lparr>muted := True\<rparr>"
  let ?done = "[server_to k (''User '' @ quoted ?name @ '' has been muted.''),
                server_to tk ''You have been muted.'']"
  let ?already = "[server_to k (''User '' @ quoted ?name @ '' is already muted.'')]"
  from assms(1) have ok: "registry_ok s" by (rule reachable_registry_ok)
  from find_user_entry[OF ok assms(8)]
  have t: "dict_get (socket_to_info s) tk = Some target" "lower (username target) = ?name"
      "streamer target = ?room" "sid target = tk" by simp_all
  have first: "handle_message e k (Some jm) s =
                 ret ((touch e k ?room s)\<lparr>socket_to_info := dict_set tk ?target' (socket_to_info s)\<rparr>)
                   (if muted target then ?already else ?done)"
    using cmd_mute_found[of me "touch e k ?room s" arg tk target k c] assms(3,8) t(4)
    by (simp add: handle_message_command[OF assms(2,4,5,6)] dispatch_mute[OF assms(7)]
                  find_user_def)
  have same: "dict_set tk ?target' (socket_to_info s) = socket_to_info s" if "muted target"
  proof -
    from that have "?target' = target" by simp
    with t(1) show ?thesis by (simp add: dict_set_same dict_get_def)
  qed
  let ?s1 = "st (handle_message e k (Some jm) s)"
  have info1: "socket_to_info ?s1 = dict_set tk ?target' (socket_to_info s)"
    by (simp add: first)
  have caller: "dict_get (socket_to_info ?s1) k = Some (if k = tk then ?target' else me)"
    using assms(2) by (simp add: info1 dict_get_def map_of_dict_set)
  have "k = tk \<Longrightarrow> target = me"
    using t(1) assms(2) by simp
  then obtain me' where me': "dict_get (socket_to_info ?s1) k = Some me'"
      "admin me' = admin me" "moderator me' = moderator me" "streamer me' = ?room"
    using caller by (cases "k = tk") simp_all
  have found1: "find_user ?s1 ?name (streamer me') = Some (tk, ?target')"
    unfolding find_user_def info1 me'(4)
    by (rule find_dict_set) (use assms(8) t in \<open>simp_all add: find_user_def\<close>)
  have second: "handle_message e' k (Some jm) ?s1 = ret (touch e' k ?room ?s1) ?already"
    using cmd_mute_found[of me' "touch e' k ?room ?s1" arg tk ?target' k c] assms(3) found1 me'
    by (simp add: handle_message_command[OF me'(1) assms(4,5,6)] dispatch_mute[OF assms(7)]
                  find_user_def info1 dict_set_idem)
  from first same second show ?thesis by auto
qed

theorem mute_twice_witness:
  "reachable bob_in
   \<and> dict_get (socket_to_info bob_in) 2 = Some bob_session
   \<and> admin bob_session
   \<and> split_command (strip ''/mute alice'') = (''/mute'', ''alice'')
   \<and> find_user bob_in (lower (strip ''alice'')) (streamer bob_session) = Some (1, alice_session)
   \<and> \<not> muted alice_session
   \<and> out (handle_message example_env 2 (Some ''/mute alice'') bob_in) =
       [server_to 2 (''User '' @ quoted (lower (strip ''alice'')) @ '' has been muted.''),
        server_to 1 ''You have been muted.'']
   \<and> handle_message example_env_later 2 (Some ''/mute alice'')
         (st (handle_message example_env 2 (Some ''/mute alice'') bob_in)) =
       ret (touch example_env_later 2 (streamer bob_session)
              (st (handle_message example_env 2 (Some ''/mute alice'') bob_in)))
         [server_to 2 (''User '' @ quoted (lower (strip ''alice'')) @ '' is already muted.'')]"
proof -
  have me: "dict_get (socket_to_info bob_in) 2 = Some bob_session"
    by (simp add: registry_bob_in dict_get_def)
  have a: "admin bob_session" by (simp add: bob_session_def)
  then have am: "admin bob_session \<or> moderator bob_session" ..
  have l: "strip ''/mute alice'' \<noteq> []" by code_simp
  have h: "hd (strip ''/mute alice'') = CHR ''/''" by code_simp
  have sp: "split_command (strip ''/mute alice'') = (''/mute'', ''alice'')" by code_simp
  have c: "''/mute'' = ''/mute'' \<or> ''/mute'' = ''/quiet''" by simp
  have f: "find_user bob_in (lower (strip ''alice'')) (streamer bob_session) = Some (1, alice_session)"
    by code_simp
  have n: "\<not> muted alice_session" by (simp add: alice_session_def)
  note T = mute_twice[OF reachable_bob_in me am l h sp c f, of example_env example_env_later]
  from T n have first:
    "handle_message example_env 2 (Some ''/mute alice'') bob_in =
       ret ((touch example_env 2 (streamer bob_session) bob_in)
              \<lparr>socket_to_info := dict_set 1 (alice_session\<lparr>muted := True\<rparr>) (socket_to_info bob_in)\<rparr>)
         [server_to 2 (''User '' @ quoted (lower (strip ''alice'')) @ '' has been muted.''),
          server_to 1 ''You have been muted.'']"
    by blast
  have o: "out (handle_message example_env 2 (Some ''/mute alice'') bob_in) =
       [server_to 2 (''User '' @ quoted (lower (strip ''alice'')) @ '' has been muted.''),
        server_to 1 ''You have been muted.'']"
    by (simp only: first st_ret)
  from T have second:
    "handle_message example_env_later 2 (Some ''/mute alice'')
         (st (handle_message example_env 2 (Some ''/mute alice'') bob_in)) =
       ret (touch example_env_later 2 (streamer bob_session)
              (st (handle_message example_env 2 (Some ''/mute alice'') bob_in)))
         [server_to 2 (''User '' @ quoted (lower (strip ''alice'')) @ '' is already muted.'')]"
    by blast
  from reachable_bob_in me a sp f n o second show ?thesis by blast
qed

text \<open>
  The claim as written fails: the second \<open>/mute alice\<close>, sent at time 200, reports that
  \<open>alice\<close> is already muted and changes the presence record of the caller, so not all
  state is unchanged.
\<close>

theorem mute_again_counterexample:
  "map (muted \<circ> snd) (socket_to_info alice_muted) = [True, False]
   \<and> out (handle_message example_env_later 2 (Some ''/mute alice'') alice_muted) =
       [server_to 2 (''User '' @ quoted ''alice'' @ '' is already muted.'')]
   \<and> socket_to_presence (st (handle_message example_env_later 2 (Some ''/mute alice'') alice_muted))
       \<noteq> socket_to_presence alice_muted
   \<and> st (handle_message example_env_later 2 (Some ''/mute alice'') alice_muted) \<noteq> alice_muted"
proof -
  have a: "map (muted \<circ> snd) (socket_to_info alice_muted) = [True, False]" by code_simp
  have b: "out (handle_message example_env_later 2 (Some ''/mute alice'') alice_muted) =
       [server_to 2 (''User '' @ quoted ''alice'' @ '' is already muted.'')]" by code_simp
  have c: "socket_to_presence (st (handle_message example_env_later 2 (Some ''/mute alice'') alice_muted))
       \<noteq> socket_to_presence alice_muted" by code_simp
  from c have "st (handle_message example_env_later 2 (Some ''/mute alice'') alice_muted) \<noteq> alice_muted"
    by auto
  with a b c show ?thesis by simp
qed

section \<open>Blank messages\<close>

text \<open>
  Claim C2. The claim asks that a message of whitespace only is handled without an
  exception. The handler checks the length of the raw message, strips it, and reads the
  first character of the result: for an authenticated connection, every non-empty message
  that is empty after stripping raises \<open>IndexError\<close>, once the presence record has been
  written and with no reply at all.
\<close>

theorem whitespace_message_raises:
  assumes "dict_get (socket_to_info s) k = Some me"
    and "jm \<noteq> []" and "strip jm = []"
  shows "handle_message e k (Some jm) s = raise (touch e k (streamer me) s) [] IndexError"
  using assms by (simp add: handle_message_def Let_def)

theorem whitespace_message_raises_witness:
  "dict_get (socket_to_info bob_in) 2 = Some bob_session
   \<and> ''   '' \<noteq> [] \<and> strip ''   '' = []
   \<and> handle_message example_env 2 (Some ''   '') bob_in
       = raise (touch example_env 2 (streamer bob_session) bob_in) [] IndexError
   \<and> exc (handle_message example_env 2 (Some ''   '') bob_in) = Some IndexError
   \<and> out (handle_message example_env 2 (Some ''   '') bob_in) = []"
proof -
  have me: "dict_get (socket_to_info bob_in) 2 = Some bob_session"
    by (simp add: registry_bob_in dict_get_def)
  have n: "''   '' \<noteq> []" by simp
  have b: "strip ''   '' = []" by code_simp
  note R = whitespace_message_raises[OF me n b, of example_env]
  from me n b R show ?thesis by (simp only: st_raise) simp
qed

section \<open>The spelling of the admin's name\<close>

text \<open>
  Claim C5. The claim asks that an admin login stores the spelling of the settings table.
  The handler assigns that spelling to its local \<open>username\<close> and then builds the session
  from \<open>json['username']\<close>: whenever a login creates a session, admin or not, the name of
  the session is the name of the payload as the caller spelled it.
\<close>

theorem login_keeps_raw_spelling:
  assumes "\<not> dict_has (socket_to_info s) k"
    and "dict_get (socket_to_info (st (handle_login e k json s))) k = Some i"
  shows "json_username json = Some (username i)"
  using handle_login_entry[OF assms(2)] assms(1) by (auto simp: dict_has_def dict_get_def)

theorem login_keeps_raw_spelling_witness:
  "\<not> dict_has (socket_to_info alice_in) 2
   \<and> dict_get (socket_to_info bob_in) 2 = Some bob_session
   \<and> admin bob_session
   \<and> username bob_session = ''BOB''
   \<and> map row_username (select_streamer alice_in ''bob'') = [''bob'']"
proof -
  let ?json = "login_payload ''BOB'' ''bob'' (Some ''red'') (Some ''k'')"
  have n: "\<not> dict_has (socket_to_info alice_in) 2" by code_simp
  have b: "dict_get (socket_to_info (st (handle_login example_env 2 ?json alice_in))) 2
           = Some bob_session"
    using registry_bob_in by (simp add: bob_in_def dict_get_def)
  from login_keeps_raw_spelling[OF n b] have u: "username bob_session = ''BOB''"
    by (simp add: login_payload_def)
  have r: "map row_username (select_streamer alice_in ''bob'') = [''bob'']" by code_simp
  have a: "admin bob_session" by (simp add: bob_session_def)
  from n b u r a show ?thesis by (simp add: bob_in_def)
qed

section \<open>The colour black\<close>

lemma dispatch_color:
  "c = ''/color'' \<or> c = ''/setcolor'' \<Longrightarrow> dispatch e k me s c m = cmd_color e k me s m"
  by (erule disjE) (simp_all add: dispatch_def)

text \<open>
  Claim C6. The claim asks that a colour that resolves to 0, such as \<open>black\<close>, is set.
  The command tests \<open>not color\<close>, which holds of \<open>None\<close> and of 0 alike: for an unmuted
  session, an argument that resolves to 0 gets the notice of an invalid colour, and
  neither the session nor the room sees a change.
\<close>

theorem color_zero_rejected:
  assumes "dict_get (socket_to_info s) k = Some me" and "\<not> muted me"
    and "strip jm \<noteq> []" and "hd (strip jm) = CHR ''/''"
    and "split_command (strip jm) = (c, arg)"
    and "c = ''/color'' \<or> c = ''/setcolor''"
    and "get_color (rnd e) (lower (strip arg)) = Inr (Some 0)"
  shows "handle_message e k (Some jm) s =
           ret (touch e k (streamer me) s)
             [server_to k
                (''Invalid color '' @ arg
                 @ '' specified, try a color name, an HTML color like #ff00ff or ''
                 @ [CHR 0x22] @ ''random'' @ [CHR 0x22] @ '' for a random color.'')]"
  using assms(2,7)
  by (simp add: handle_message_command[OF assms(1,3,4,5)] dispatch_color[OF assms(6)]
                cmd_color_def)

theorem color_zero_rejected_witness:
  "dict_get (socket_to_info bob_in) 1 = Some alice_session
   \<and> \<not> muted alice_session
   \<and> split_command (strip ''/color black'') = (''/color'', ''black'')
   \<and> get_color (rnd example_env) (lower (strip ''black'')) = Inr (Some 0)
   \<and> handle_message example_env 1 (Some ''/color black'') bob_in =
       ret (touch example_env 1 (streamer alice_session) bob_in)
         [server_to 1
            (''Invalid color '' @ ''black''
             @ '' specified, try a color name, an HTML color like #ff00ff or ''
             @ [CHR 0x22] @ ''random'' @ [CHR 0x22] @ '' for a random color.'')]"
proof -
  have me: "dict_get (socket_to_info bob_in) 1 = Some alice_session"
    by (simp add: registry_bob_in dict_get_def)
  have n: "\<not> muted alice_session" by (simp add: alice_session_def)
  have l: "strip ''/color black'' \<noteq> []" by code_simp
  have h: "hd (strip ''/color black'') = CHR ''/''" by code_simp
  have sp: "split_command (strip ''/color black'') = (''/color'', ''black'')" by code_simp
  have c: "''/color'' = ''/color'' \<or> ''/color'' = ''/setcolor''" by simp
  have g: "get_color (rnd example_env) (lower (strip ''black'')) = Inr (Some 0)" by code_simp
  note R = color_zero_rejected[OF me n l h sp c g]
  from me n sp g R show ?thesis by blast
qed

section \<open>Colour resolution\<close>

text \<open>An input that is no colour name and does not start with \<open>#\<close> is rejected.\<close>

lemma normalize_hex_hash:
  assumes "normalize_hex x = Some y"
  shows "x \<noteq> [] \<and> hd x = CHR ''#''"
proof (cases "x \<noteq> [] \<and> last x = CHR 0x0A")
  case True
  with assms have "butlast x \<noteq> [] \<and> hd (butlast x) = CHR ''#''"
    by (cases "butlast x") (auto simp: normalize_hex_def split: if_splits)
  then show ?thesis by (cases x) (auto split: if_splits)
next
  case False
  with assms show ?thesis
    by (cases x) (auto simp: normalize_hex_def split: if_splits)
qed

lemma get_color_without_hash:
  assumes "lower (strip x) \<noteq> ''random''" and "name_to_hex (lower (strip x)) = None"
    and "lower (strip x) = [] \<or> hd (lower (strip x)) \<noteq> CHR ''#''"
  shows "get_color r x = Inr None"
proof -
  have "normalize_hex (lower (strip x)) = None"
    using assms(3) normalize_hex_hash[of "lower (strip x)"] by (cases "normalize_hex (lower (strip x))") auto
  with assms show ?thesis by (auto simp: get_color_def Let_def)
qed

text \<open>
  Claim C7, as amended. A named colour resolves to its value, and a hex triplet of three
  or of six digits resolves when it has its leading \<open>#\<close>: \<open>red\<close> gives 0xFF0000, \<open>#abc\<close>
  gives 0xAABBCC, \<open>#abcdef\<close> gives 0xABCDEF. Without the leading \<open>#\<close> the triplet
  \<open>abcdef\<close> is rejected, as is \<open>not-a-color\<close>.
\<close>

theorem get_color_resolution:
  "get_color r ''red'' = Inr (Some 0xFF0000)
   \<and> get_color r ''#abc'' = Inr (Some 0xAABBCC)
   \<and> get_color r ''#abcdef'' = Inr (Some 0xABCDEF)
   \<and> get_color r ''abcdef'' = Inr None
   \<and> get_color r ''not-a-color'' = Inr None"
proof -
  have a: "get_color r ''red'' = Inr (Some 0xFF0000)" by code_simp
  have b: "get_color r ''#abc'' = Inr (Some 0xAABBCC)" by code_simp
  have c: "get_color r ''#abcdef'' = Inr (Some 0xABCDEF)" by code_simp
  have d: "get_color r ''abcdef'' = Inr None" by code_simp
  have e: "get_color r ''not-a-color'' = Inr None" by code_simp
  from a b c d e show ?thesis by blast
qed

theorem get_color_resolution_witness:
  "get_color 0 ''red'' = Inr (Some 0xFF0000)
   \<and> get_color 0 ''#abc'' = Inr (Some 0xAABBCC)
   \<and> get_color 0 ''#abcdef'' = Inr (Some 0xABCDEF)
   \<and> get_color 0 ''abcdef'' = Inr None
   \<and> get_color 0 ''not-a-color'' = Inr None"
  by (rule get_color_resolution)

text \<open>The claim as written fails: the triplet without \<open>#\<close> does not resolve.\<close>

theorem bare_hex_counterexample: "get_color 0 ''abcdef'' = Inr None"
  by code_simp

section \<open>Login under the name of the room without a key\<close>

text \<open>
  Claim C4, as amended. A connection without a session sends a login that passes the
  checks before the key (a name of 1 to 29 characters that is free in the room, and a
  \<open>color\<close> entry on which \<open>get_color\<close> does not raise), under a name that is the room
  name up to case, for a room with exactly one row in the settings table, and without a
  key. The handler then sends \<open>login key required\<close>, carrying the stored spelling, to the
  caller and nothing else; it creates no session and leaves the settings table alone; but
  it has written the presence record of the caller for the room before it looked the
  room up.
\<close>

theorem login_key_required:
  assumes "\<not> dict_has (socket_to_info s) k"
    and "json_username json = Some ju" and "json_streamer json = Some js"
    and "ju \<noteq> []" and "length ju < 30"
    and "\<not> list_ex (\<lambda>user. lower (fst user) = lower ju) (users_in_room s (lower js))"
    and "json_color json = Some jc" and "get_color (rnd e) (lower (strip jc)) = Inr col"
    and "lower ju = lower js" and "select_streamer s (lower js) = [row]"
    and "json_key json = None"
  shows "handle_login e k json s =
           ret (touch e k (lower js) s)
             [Emit ''login key required'' [(''username'', Str (row_username row))] (ToSid k)]"
proof -
  have "select_streamer (touch e k (lower js) s) (lower js) = [row]"
    using assms(10) by (simp add: select_streamer_def)
  with assms show ?thesis by (simp add: handle_login_def Let_def)
qed

theorem login_key_required_witness:
  "\<not> dict_has (socket_to_info example_start) 1
   \<and> get_color (rnd example_env) (lower (strip ''blue'')) = Inr (Some 0x0000FF)
   \<and> lower ''Bob'' = lower ''BOB''
   \<and> map row_username (select_streamer example_start (lower ''BOB'')) = [''bob'']
   \<and> handle_login example_env 1 (login_payload ''Bob'' ''BOB'' (Some ''blue'') None) example_start =
       ret (touch example_env 1 (lower ''BOB'') example_start)
         [Emit ''login key required'' [(''username'', Str ''bob'')] (ToSid 1)]"
proof -
  let ?json = "login_payload ''Bob'' ''BOB'' (Some ''blue'') None"
  let ?row = "\<lparr>row_username = ''bob'', row_key = ''k'', description = None, streampass = None\<rparr>"
  have n: "\<not> dict_has (socket_to_info example_start) 1" by code_simp
  have u: "json_username ?json = Some ''Bob''" and r: "json_streamer ?json = Some ''BOB''"
    and c: "json_color ?json = Some ''blue''" and key: "json_key ?json = None"
    by (simp_all add: login_payload_def)
  have ne: "''Bob'' \<noteq> []" and len: "length ''Bob'' < 30" by simp_all
  have free: "\<not> list_ex (\<lambda>user. lower (fst user) = lower ''Bob'')
                   (users_in_room example_start (lower ''BOB''))"
    by (simp add: users_in_room_def example_start_def dict_values_def)
  have g: "get_color (rnd example_env) (lower (strip ''blue'')) = Inr (Some 0x0000FF)"
    by code_simp
  have same: "lower ''Bob'' = lower ''BOB''" by code_simp
  have sel: "select_streamer example_start (lower ''BOB'') = [?row]" by code_simp
  note R = login_key_required[OF n u r ne len free c g same sel key]
  from sel have names: "map row_username (select_streamer example_start (lower ''BOB'')) = [''bob'']"
    by simp
  from R have "handle_login example_env 1 ?json example_start =
       ret (touch example_env 1 (lower ''BOB'') example_start)
         [Emit ''login key required'' [(''username'', Str ''bob'')] (ToSid 1)]"
    by simp
  with n g same names show ?thesis by blast
qed

text \<open>
  The claim as written fails: the login is answered with \<open>login key required\<close> alone and
  creates no session, but the presence store is not what it was.
\<close>

theorem login_key_required_counterexample:
  "out (handle_login example_env 1 (login_payload ''bob'' ''bob'' (Some ''blue'') None)
          example_start)
     = [Emit ''login key required'' [(''username'', Str ''bob'')] (ToSid 1)]
   \<and> socket_to_info (st (handle_login example_env 1
          (login_payload ''bob'' ''bob'' (Some ''blue'') None) example_start)) = []
   \<and> socket_to_presence example_start = []
   \<and> socket_to_presence (st (handle_login example_env 1
          (login_payload ''bob'' ''bob'' (Some ''blue'') None) example_start))
     = [(1, \<lparr>presence_sid = 1, presence_streamer = ''bob'', timestamp = 100\<rparr>)]"
proof -
  let ?r = "handle_login example_env 1 (login_payload ''bob'' ''bob'' (Some ''blue'') None)
              example_start"
  have a: "out ?r = [Emit ''login key required'' [(''username'', Str ''bob'')] (ToSid 1)]"
    by code_simp
  have b: "socket_to_info (st ?r) = []" by code_simp
  have c: "socket_to_presence example_start = []" by code_simp
  have d: "socket_to_presence (st ?r)
           = [(1, \<lparr>presence_sid = 1, presence_streamer = ''bob'', timestamp = 100\<rparr>)]"
    by code_simp
  from a b c d show ?thesis by blast
qed

section \<open>Login without a colour\<close>

text \<open>
  Claim C10, as amended. For a connection that holds no session: a login whose payload
  has a \<open>streamer\<close> entry and a \<open>username\<close> entry of 1 to 29 characters that is free in
  the room, and no \<open>color\<close> entry, raises \<open>KeyError\<close> with no reply and no change of
  state; a login without a \<open>username\<close> entry, or with one and without a \<open>streamer\<close>
  entry, is answered with a private \<open>error\<close> and returns.
\<close>

theorem login_without_color:
  assumes "\<not> dict_has (socket_to_info s) k"
  shows "(json_username json = Some ju \<and> json_streamer json = Some js
          \<and> ju \<noteq> [] \<and> length ju < 30
          \<and> \<not> list_ex (\<lambda>user. lower (fst user) = lower ju) (users_in_room s (lower js))
          \<and> json_color json = None
          \<longrightarrow> handle_login e k json s = raise s [] KeyError)
       \<and> (json_username json = None
          \<longrightarrow> handle_login e k json s = ret s [error_to k ''Username mssing from JSON?''])
       \<and> (json_username json = Some ju \<and> json_streamer json = None
          \<longrightarrow> handle_login e k json s = ret s [error_to k ''Streamer mssing from JSON?''])"
  using assms by (simp add: handle_login_def Let_def)

theorem login_without_color_witness:
  "\<not> dict_has (socket_to_info alice_in) 2
   \<and> handle_login example_env 2 (login_payload ''carol'' ''bob'' None None) alice_in
       = raise alice_in [] KeyError
   \<and> handle_login example_env 2
         \<lparr>json_username = None, json_streamer = Some ''bob'', json_color = None, json_key = None\<rparr>
         alice_in
       = ret alice_in [error_to 2 ''Username mssing from JSON?'']
   \<and> handle_login example_env 2
         \<lparr>json_username = Some ''carol'', json_streamer = None, json_color = None, json_key = None\<rparr>
         alice_in
       = ret alice_in [error_to 2 ''Streamer mssing from JSON?'']"
proof -
  have n: "\<not> dict_has (socket_to_info alice_in) 2" by code_simp
  have free: "\<not> list_ex (\<lambda>user. lower (fst user) = lower ''carol'')
                   (users_in_room alice_in (lower ''bob''))"
    by code_simp
  have a: "handle_login example_env 2 (login_payload ''carol'' ''bob'' None None) alice_in
           = raise alice_in [] KeyError"
    using login_without_color[OF n, of "login_payload ''carol'' ''bob'' None None"
            "''carol''" "''bob''" example_env] free
    by (simp add: login_payload_def)
  have b: "handle_login example_env 2
         \<lparr>json_username = None, json_streamer = Some ''bob'', json_color = None, json_key = None\<rparr>
         alice_in
       = ret alice_in [error_to 2 ''Username mssing from JSON?'']"
    using login_without_color[OF n, of
            "\<lparr>json_username = None, json_streamer = Some ''bob'', json_color = None, json_key = None\<rparr>"
            _ _ example_env]
    by simp
  have c: "handle_login example_env 2
         \<lparr>json_username = Some ''carol'', json_streamer = None, json_color = None, json_key = None\<rparr>
         alice_in
       = ret alice_in [error_to 2 ''Streamer mssing from JSON?'']"
    using login_without_color[OF n, of
            "\<lparr>json_username = Some ''carol'', json_streamer = None, json_color = None, json_key = None\<rparr>"
            "''carol''" _ example_env]
    by simp
  from n a b c show ?thesis by blast
qed

text \<open>
  The claim as written fails for a connection that is logged in already: its login
  without a \<open>color\<close> entry is answered with a private \<open>error\<close> and raises nothing.
\<close>

theorem login_without_color_counterexample:
  "dict_has (socket_to_info alice_in) 1
   \<and> out (handle_login example_env 1 (login_payload ''carol'' ''bob'' None None) alice_in)
       = [error_to 1 ''SID already taken?'']
   \<and> exc (handle_login example_env 1 (login_payload ''carol'' ''bob'' None None) alice_in) = None"
proof -
  have a: "dict_has (socket_to_info alice_in) 1" by code_simp
  have b: "out (handle_login example_env 1 (login_payload ''carol'' ''bob'' None None) alice_in)
       = [error_to 1 ''SID already taken?'']" by code_simp
  have c: "exc (handle_login example_env 1 (login_payload ''carol'' ''bob'' None None) alice_in)
       = None" by code_simp
  from a b c show ?thesis by blast
qed

end
